theory Spec2Isabelle
  imports Main
begin

section \<open>The waitlist back end: submission pipeline\<close>

text \<open>
  The program is a small Node.js back end: the serverless function
  \<^verbatim>\<open>api/waitlist.js\<close> and the Express server of the same repository, whose route
  \<^verbatim>\<open>POST /api/waitlist\<close> carries the same code.  Its core is the waitlist submission
  pipeline: input validation, an in-memory rate limiter keyed by the lower-cased email,
  one remote call, and the translation of its outcome into a client-facing reply.  The
  functions below are translated from that source, keeping its names and the order of
  its statements.  Everything the code reads from outside (the request body, the
  process environment, the clock, the answer of the remote service) is an argument;
  everything it changes or sends (the tracker, the reply, the remote request) is part
  of the result.
\<close>

subsection \<open>JavaScript values\<close>

text \<open>
  The request body is whatever the JSON parser of the framework produced, so the fields
  \<^verbatim>\<open>email\<close> and \<^verbatim>\<open>role\<close> can hold any JSON value, or be absent
  (\<^verbatim>\<open>undefined\<close>).  A number is given by the string that the number-to-string
  conversion of JavaScript produces for it (\<^verbatim>\<open>0\<close>, \<^verbatim>\<open>-7\<close>, \<^verbatim>\<open>1.5\<close>,
  \<^verbatim>\<open>1.5e+21\<close>, \<^verbatim>\<open>NaN\<close>), which determines the number up to the sign of zero;
  the handler does no arithmetic on the fields of the body.  Every number is such a
  string, though not every string is the text of a number, so what is proved for all
  values holds for all numbers.  Zero (of either sign) and \<^verbatim>\<open>NaN\<close> are the
  numbers that count as false.  An object is the list of its own properties, each
  name once.
\<close>

datatype jsval =
    JUndefined
  | JNull
  | JBool bool
  | JNum string
  | JStr string
  | JArr "jsval list"
  | JObj "(string \<times> jsval) list"

text \<open>\<^verbatim>\<open>!v\<close> is the negation of \<open>truthy v\<close>.\<close>

fun truthy :: "jsval \<Rightarrow> bool" where
  "truthy JUndefined = False"
| "truthy JNull = False"
| "truthy (JBool b) = b"
| "truthy (JNum n) = (n \<noteq> ''0'' \<and> n \<noteq> ''NaN'')"
| "truthy (JStr s) = (s \<noteq> [])"
| "truthy (JArr xs) = True"
| "truthy (JObj props) = True"

text \<open>
  Reading a property of a value that is neither \<^verbatim>\<open>undefined\<close> nor \<^verbatim>\<open>null\<close>.
  The only names the code reads from the body are \<^verbatim>\<open>email\<close> and \<^verbatim>\<open>role\<close>,
  which no string, number, boolean or array has.
\<close>

fun get_prop :: "jsval \<Rightarrow> string \<Rightarrow> jsval" where
  "get_prop (JObj props) name = (case map_of props name of Some v \<Rightarrow> v | None \<Rightarrow> JUndefined)"
| "get_prop v name = JUndefined"

text \<open>
  The string conversion that \<^verbatim>\<open>RegExp.prototype.test\<close> applies to its argument;
  \<open>None\<close> stands for the \<^verbatim>\<open>TypeError\<close> it throws.  An array is converted by
  \<^verbatim>\<open>join\<close>: the conversions of its elements separated by commas, with \<^verbatim>\<open>null\<close>
  and \<^verbatim>\<open>undefined\<close> elements empty; it throws when the conversion of an element
  throws.  An object without a property \<^verbatim>\<open>toString\<close> of its own inherits the one that
  gives \<^verbatim>\<open>[object Object]\<close>.  An object parsed from JSON with a property
  \<^verbatim>\<open>toString\<close> of its own cannot be converted: that property is not a function, and
  the inherited \<^verbatim>\<open>valueOf\<close> returns the object itself (a \<^verbatim>\<open>valueOf\<close> of its own
  is not a function either), so the conversion throws.
\<close>

fun join :: "string \<Rightarrow> string list \<Rightarrow> string" where
  "join sep [] = []"
| "join sep [x] = x"
| "join sep (x # y # ys) = x @ sep @ join sep (y # ys)"

fun ToString :: "jsval \<Rightarrow> string option" where
  "ToString JUndefined = Some ''undefined''"
| "ToString JNull = Some ''null''"
| "ToString (JBool b) = Some (if b then ''true'' else ''false'')"
| "ToString (JNum n) = Some n"
| "ToString (JStr s) = Some s"
| "ToString (JArr xs) =
     map_option (join '','')
       (those (map (\<lambda>x. if x = JUndefined \<or> x = JNull then Some [] else ToString x) xs))"
| "ToString (JObj props) =
     (if ''toString'' \<in> fst ` set props then None else Some ''[object Object]'')"

text \<open>
  \<^verbatim>\<open>Array.prototype.includes\<close> compares with SameValueZero: primitives by value,
  arrays and objects by identity, so a value parsed from the request is never the same
  as an array or object of the list.
\<close>

fun SameValueZero :: "jsval \<Rightarrow> jsval \<Rightarrow> bool" where
  "SameValueZero (JArr xs) y = False"
| "SameValueZero (JObj props) y = False"
| "SameValueZero x y = (x = y)"

definition Array_includes :: "jsval list \<Rightarrow> jsval \<Rightarrow> bool" where
  "Array_includes xs v = (\<exists>x\<in>set xs. SameValueZero x v)"

text \<open>
  Strings are lists of characters with codes below 256, read as the code units of the
  JavaScript string.  \<^verbatim>\<open>toLowerCase\<close> maps the upper-case letters of that
  range, A to Z and the accented capitals 0xC0 to 0xDE without the multiplication sign
  0xD7, to the letter 32 places further.
\<close>

definition toLowerCase_char :: "char \<Rightarrow> char" where
  "toLowerCase_char c =
     (let n = (of_char c :: nat) in
      if (65 \<le> n \<and> n \<le> 90) \<or> (192 \<le> n \<and> n \<le> 222 \<and> n \<noteq> 215)
      then char_of (n + 32) else c)"

definition toLowerCase :: "string \<Rightarrow> string" where
  "toLowerCase s = map toLowerCase_char s"

text \<open>\<^verbatim>\<open>s.split(sep)\<close> for a one-character separator, and \<^verbatim>\<open>[0]\<close> on its result.\<close>

fun split_str :: "char \<Rightarrow> string \<Rightarrow> string list" where
  "split_str sep [] = [[]]"
| "split_str sep (c # cs) =
     (if c = sep then [] # split_str sep cs
      else (case split_str sep cs of [] \<Rightarrow> [[c]] | p # ps \<Rightarrow> (c # p) # ps))"

fun index0 :: "string list \<Rightarrow> jsval" where
  "index0 [] = JUndefined"
| "index0 (p # ps) = JStr p"

subsection \<open>Email validation\<close>

text \<open>
  \<^verbatim>\<open>/^[^\s@]+@[^\s@]+\.[^\s@]+$/\<close>: the pattern is anchored at both ends and is a
  sequence of pieces, each a single character or a negated set, once or one or more
  times.  \<open>regex_test\<close> is the backtracking match of such a sequence against the whole
  string.  The class \<^verbatim>\<open>\s\<close> is tab, line feed, vertical tab, form feed, carriage
  return, space and the no-break space 0xA0 (the white space among the characters
  below 256).
\<close>

definition whitespace :: "char list" where
  "whitespace = [CHR 0x09, CHR 0x0A, CHR 0x0B, CHR 0x0C, CHR 0x0D, CHR 0x20, CHR 0xA0]"

datatype cclass = Chr char | NoneOf "char list"

datatype piece = Once cclass | Plus cclass

fun in_class :: "cclass \<Rightarrow> char \<Rightarrow> bool" where
  "in_class (Chr c) x = (x = c)"
| "in_class (NoneOf cs) x = (x \<notin> set cs)"

fun regex_test :: "piece list \<Rightarrow> string \<Rightarrow> bool" where
  "regex_test [] s = (s = [])"
| "regex_test (Once c # ps) [] = False"
| "regex_test (Once c # ps) (x # xs) = (in_class c x \<and> regex_test ps xs)"
| "regex_test (Plus c # ps) [] = False"
| "regex_test (Plus c # ps) (x # xs) =
     (in_class c x \<and> (regex_test (Plus c # ps) xs \<or> regex_test ps xs))"

definition emailRegex :: "piece list" where
  "emailRegex =
     [Plus (NoneOf (whitespace @ ''@'')), Once (Chr CHR ''@''),
      Plus (NoneOf (whitespace @ ''@'')), Once (Chr CHR ''.''),
      Plus (NoneOf (whitespace @ ''@''))]"

text \<open>
  \<^verbatim>\<open>validateEmail(email)\<close> returns the result of the test, or throws when its
  argument cannot be converted to a string (\<open>None\<close>).
\<close>

definition validateEmail :: "jsval \<Rightarrow> bool option" where
  "validateEmail email = map_option (regex_test emailRegex) (ToString email)"

text \<open>A string free of white space and of \<^verbatim>\<open>@\<close>, as the claims about the pattern put it.\<close>

definition plain :: "string \<Rightarrow> bool" where
  "plain u = (\<forall>c\<in>set u. c \<notin> set whitespace \<and> c \<noteq> CHR ''@'')"

subsection \<open>The rate limiter\<close>

text \<open>
  \<^verbatim>\<open>submissionTracker\<close> is a \<^verbatim>\<open>Map\<close> from the email to an object
  \<^verbatim>\<open>{ count, firstSubmission }\<close>.  \<^verbatim>\<open>Date.now()\<close> is an integer number of
  milliseconds; it is an argument of the model.  The mutation of the map (and of the
  stored object, by \<^verbatim>\<open>emailData.count++\<close>) is made explicit: the function returns the
  new map next to its boolean result.
\<close>

record emailData =
  count :: nat
  firstSubmission :: int

type_synonym tracker = "string \<rightharpoonup> emailData"

definition RATE_LIMIT_WINDOW :: int where
  "RATE_LIMIT_WINDOW = 15 * 60 * 1000"

definition MAX_SUBMISSIONS_PER_EMAIL :: nat where
  "MAX_SUBMISSIONS_PER_EMAIL = 3"

definition isRateLimited :: "int \<Rightarrow> string \<Rightarrow> tracker \<Rightarrow> bool \<times> tracker" where
  "isRateLimited now email submissionTracker =
     (case submissionTracker email of
        None \<Rightarrow>
          (False, submissionTracker(email \<mapsto> \<lparr>count = 1, firstSubmission = now\<rparr>))
      | Some d \<Rightarrow>
          if now - firstSubmission d > RATE_LIMIT_WINDOW then
            (False, submissionTracker(email \<mapsto> \<lparr>count = 1, firstSubmission = now\<rparr>))
          else if count d \<ge> MAX_SUBMISSIONS_PER_EMAIL then
            (True, submissionTracker)
          else
            (False, submissionTracker(email \<mapsto> d\<lparr>count := count d + 1\<rparr>)))"

text \<open>
  The states of the tracker that the process can be in: it starts empty, and the only
  code that touches it is a call of \<^verbatim>\<open>isRateLimited\<close>, for any identity at any
  reading of the clock.
\<close>

inductive reachable :: "tracker \<Rightarrow> bool" where
  start: "reachable Map.empty"
| call: "reachable t \<Longrightarrow> reachable (snd (isRateLimited now email t))"

text \<open>A run of calls, each given by the clock reading and the identity.\<close>

fun run_calls :: "(int \<times> string) list \<Rightarrow> tracker \<Rightarrow> tracker" where
  "run_calls [] t = t"
| "run_calls ((now, email) # cs) t = run_calls cs (snd (isRateLimited now email t))"

text \<open>The invariant of the tracker: every stored count is between 1 and the maximum.\<close>

definition bounded :: "tracker \<Rightarrow> bool" where
  "bounded t = (\<forall>k d. t k = Some d \<longrightarrow> 1 \<le> count d \<and> count d \<le> MAX_SUBMISSIONS_PER_EMAIL)"

subsection \<open>Replies, environment, clock and the remote call\<close>

text \<open>
  \<open>json n ok msg\<close> is \<^verbatim>\<open>res.status(n).json({ success: ok, message: msg })\<close>;
  \<^verbatim>\<open>res.json(...)\<close> alone sends status 200.
\<close>

record reply =
  http_status :: nat
  success :: bool
  message :: string

definition json :: "nat \<Rightarrow> bool \<Rightarrow> string \<Rightarrow> reply" where
  "json n ok msg = \<lparr>http_status = n, success = ok, message = msg\<rparr>"

text \<open>
  \<^verbatim>\<open>process.env\<close>: a variable is a string, or is not set.  \<open>getenv\<close> is the value
  that reading it gives (\<^verbatim>\<open>undefined\<close> when it is not set) and \<open>interpolate\<close> its
  text inside a template literal.
\<close>

record env =
  NOTION_TOKEN :: "string option"
  NOTION_DATABASE_ID :: "string option"

fun getenv :: "string option \<Rightarrow> jsval" where
  "getenv None = JUndefined"
| "getenv (Some s) = JStr s"

fun interpolate :: "string option \<Rightarrow> string" where
  "interpolate None = ''undefined''"
| "interpolate (Some s) = s"

text \<open>
  The two readings of the clock: \<^verbatim>\<open>Date.now()\<close> inside \<^verbatim>\<open>isRateLimited\<close>,
  and the string that \<^verbatim>\<open>new Date().toISOString()\<close> returns when the payload is built.
\<close>

record clock =
  Date_now :: int
  toISOString :: string

text \<open>
  What the catch block reads of a thrown value: \<^verbatim>\<open>error.response\<close> (with its
  \<^verbatim>\<open>status\<close> and \<^verbatim>\<open>data\<close>) and \<^verbatim>\<open>error.code\<close>.  A \<^verbatim>\<open>TypeError\<close>
  raised by the handler's own code has neither.
\<close>

record upstream_response =
  status :: nat
  data :: jsval

record js_error =
  response :: "upstream_response option"
  code :: "string option"

definition TypeError :: js_error where
  "TypeError = \<lparr>response = None, code = None\<rparr>"

text \<open>
  \<^verbatim>\<open>axios.post(url, payload, { headers, timeout })\<close>: the request that leaves the
  process, and the two ways the awaited promise settles.  The remote service is a
  function from the request to the way the promise settles.
\<close>

record axios_request =
  url :: string
  payload :: jsval
  headers :: "(string \<times> string) list"
  timeout :: nat

datatype axios_result = Resolved upstream_response | Rejected js_error

subsection \<open>The submission handler\<close>

definition validRoles :: "jsval list" where
  "validRoles =
     [JStr ''Student / Learner'', JStr ''Tutor / Teacher'',
      JStr ''School / Institute'', JStr ''Developer / Researcher'']"

definition notionPayload :: "env \<Rightarrow> clock \<Rightarrow> jsval \<Rightarrow> jsval \<Rightarrow> jsval" where
  "notionPayload e clk email role =
     JObj [
       (''parent'', JObj [(''database_id'', getenv (NOTION_DATABASE_ID e))]),
       (''properties'', JObj [
          (''Name'', JObj [(''title'', JArr [JObj [(''text'', JObj [(''content'', email)])]])]),
          (''Email'', JObj [(''email'', email)]),
          (''Role'', JObj [(''select'', JObj [(''name'', role)])]),
          (''SubmitAt'', JObj [(''date'',
              JObj [(''start'', index0 (split_str CHR ''T'' (toISOString clk)))])])])]"

definition notionRequest :: "env \<Rightarrow> jsval \<Rightarrow> axios_request" where
  "notionRequest e body =
     \<lparr>url = ''https://api.notion.com/v1/pages'',
      payload = body,
      headers = [(''Authorization'', ''Bearer '' @ interpolate (NOTION_TOKEN e)),
                 (''Content-Type'', ''application/json''),
                 (''Notion-Version'', ''2022-06-28'')],
      timeout = 10000\<rparr>"

text \<open>
  The body of \<^verbatim>\<open>try\<close>.  Its result is the reply it sent, or the value it threw,
  together with the tracker it leaves and the remote requests it made.  Destructuring
  \<^verbatim>\<open>undefined\<close> or \<^verbatim>\<open>null\<close> throws a \<^verbatim>\<open>TypeError\<close>, and so do
  \<^verbatim>\<open>validateEmail(email)\<close> on a value that cannot be converted to a string and
  \<^verbatim>\<open>email.toLowerCase()\<close> on a value that is not a string.
\<close>

definition try_block ::
  "env \<Rightarrow> (axios_request \<Rightarrow> axios_result) \<Rightarrow> clock \<Rightarrow> jsval \<Rightarrow> tracker
     \<Rightarrow> (js_error + reply) \<times> tracker \<times> axios_request list" where
  "try_block e axios_post clk body tracker =
     (if body = JUndefined \<or> body = JNull then (Inl TypeError, tracker, [])
      else
        let email = get_prop body ''email''; role = get_prop body ''role'' in
        if \<not> truthy email \<or> \<not> truthy role then
          (Inr (json 400 False ''Email and role are required''), tracker, [])
        else
          (case validateEmail email of
             None \<Rightarrow> (Inl TypeError, tracker, [])
           | Some valid \<Rightarrow>
               if \<not> valid then
                 (Inr (json 400 False ''Please enter a valid email address''), tracker, [])
               else
                 (case email of
                    JStr s \<Rightarrow>
                      (case isRateLimited (Date_now clk) (toLowerCase s) tracker of
                         (limited, tracker') \<Rightarrow>
                           if limited then
                             (Inr (json 429 False
                                ''Too many submissions. Please try again later.''),
                              tracker', [])
                           else if \<not> Array_includes validRoles role then
                             (Inr (json 400 False ''Invalid role selected''), tracker', [])
                           else if \<not> truthy (getenv (NOTION_TOKEN e))
                                 \<or> \<not> truthy (getenv (NOTION_DATABASE_ID e)) then
                             (Inr (json 500 False
                                ''Server configuration error. Please contact support.''),
                              tracker', [])
                           else
                             let request = notionRequest e (notionPayload e clk email role) in
                             (case axios_post request of
                                Resolved r \<Rightarrow>
                                  (Inr (json 200 True
                                     ''Successfully added to waitlist! We'll be in touch soon.''),
                                   tracker', [request])
                              | Rejected error \<Rightarrow> (Inl error, tracker', [request])))
                  | _ \<Rightarrow> (Inl TypeError, tracker, []))))"

text \<open>The \<^verbatim>\<open>catch\<close> block.\<close>

definition catch_block :: "js_error \<Rightarrow> reply" where
  "catch_block error =
     (case response error of
        Some r \<Rightarrow>
          (if status r = 400 then json 400 False ''Invalid request format. Please try again.''
           else if status r = 401 then
             json 500 False ''Server authentication error. Please contact support.''
           else if status r = 404 then
             json 500 False ''Database configuration error. Please contact support.''
           else if status r = 429 then
             json 429 False ''Server is busy. Please try again in a moment.''
           else json 500 False ''Something went wrong. Please try again.'')
      | None \<Rightarrow>
          (if code error = Some ''ECONNABORTED'' then
             json 408 False ''Request timeout. Please try again.''
           else
             json 500 False ''Network error. Please check your connection and try again.''))"

text \<open>
  The handler of a \<^verbatim>\<open>POST\<close>: the \<^verbatim>\<open>try\<close> block, with whatever it throws turned
  into a reply by the \<^verbatim>\<open>catch\<close> block.  The result is the reply, the tracker after
  the request and the remote requests made.
\<close>

definition post_waitlist ::
  "env \<Rightarrow> (axios_request \<Rightarrow> axios_result) \<Rightarrow> clock \<Rightarrow> jsval \<Rightarrow> tracker
     \<Rightarrow> reply \<times> tracker \<times> axios_request list" where
  "post_waitlist e axios_post clk body tracker =
     (case try_block e axios_post clk body tracker of
        (Inl error, effects) \<Rightarrow> (catch_block error, effects)
      | (Inr sent, effects) \<Rightarrow> (sent, effects))"

subsection \<open>The validation order and the outcome mapping, as the specification words them\<close>

text \<open>
  The five checks of the specification, in its order, each with the condition under
  which it fails and the reply that rejects the request: the status is the
  specification's, the message is the one the source sends with it.  The first failing
  check is found by going through the list in order.
\<close>

datatype check = MissingFields | InvalidEmail | RateLimited | InvalidRole | ServerMisconfigured

text \<open>
  The identity under which the specification consults the rate limiter: the lower-cased
  email.  For a value that is not a string it is taken of its string conversion.
\<close>

definition lower_cased :: "jsval \<Rightarrow> string" where
  "lower_cased email = (case ToString email of Some s \<Rightarrow> toLowerCase s | None \<Rightarrow> [])"

definition validation_order :: "check list" where
  "validation_order = [MissingFields, InvalidEmail, RateLimited, InvalidRole, ServerMisconfigured]"

fun fails :: "env \<Rightarrow> clock \<Rightarrow> jsval \<Rightarrow> tracker \<Rightarrow> check \<Rightarrow> bool" where
  "fails e clk body tracker MissingFields =
     (\<not> truthy (get_prop body ''email'') \<or> \<not> truthy (get_prop body ''role''))"
| "fails e clk body tracker InvalidEmail = (validateEmail (get_prop body ''email'') \<noteq> Some True)"
| "fails e clk body tracker RateLimited =
     fst (isRateLimited (Date_now clk) (lower_cased (get_prop body ''email'')) tracker)"
| "fails e clk body tracker InvalidRole = (\<not> Array_includes validRoles (get_prop body ''role''))"
| "fails e clk body tracker ServerMisconfigured =
     (\<not> truthy (getenv (NOTION_TOKEN e)) \<or> \<not> truthy (getenv (NOTION_DATABASE_ID e)))"

definition first_failure :: "env \<Rightarrow> clock \<Rightarrow> jsval \<Rightarrow> tracker \<Rightarrow> check option" where
  "first_failure e clk body tracker = find (fails e clk body tracker) validation_order"

fun rejection :: "check \<Rightarrow> reply" where
  "rejection MissingFields = json 400 False ''Email and role are required''"
| "rejection InvalidEmail = json 400 False ''Please enter a valid email address''"
| "rejection RateLimited = json 429 False ''Too many submissions. Please try again later.''"
| "rejection InvalidRole = json 400 False ''Invalid role selected''"
| "rejection ServerMisconfigured =
     json 500 False ''Server configuration error. Please contact support.''"

text \<open>
  What it means for one request to follow the validation order: the reply is the
  rejection of the first failing check and no remote call is made, or no check fails
  and the one remote call is made; and the rate limiter is consulted, with the
  lower-cased email, exactly when the two checks before it pass.
\<close>

definition follows_validation_order ::
  "env \<Rightarrow> (axios_request \<Rightarrow> axios_result) \<Rightarrow> clock \<Rightarrow> jsval \<Rightarrow> tracker \<Rightarrow> bool" where
  "follows_validation_order e axios_post clk body tracker =
     (case post_waitlist e axios_post clk body tracker of
        (sent, tracker', posted) \<Rightarrow>
          (case first_failure e clk body tracker of
             Some c \<Rightarrow> sent = rejection c \<and> posted = []
           | None \<Rightarrow>
               posted = [notionRequest e
                 (notionPayload e clk (get_prop body ''email'') (get_prop body ''role''))]) \<and>
          tracker' =
            (if first_failure e clk body tracker = Some MissingFields
                \<or> first_failure e clk body tracker = Some InvalidEmail
             then tracker
             else snd (isRateLimited (Date_now clk)
                    (lower_cased (get_prop body ''email'')) tracker)))"

text \<open>
  The request bodies on which a statement of the handler itself throws a
  \<^verbatim>\<open>TypeError\<close>: the body is absent or \<^verbatim>\<open>null\<close>, or both fields are non-empty
  and the email cannot be converted to a string for the pattern test, or passes the
  test without being a string (so that it has no \<^verbatim>\<open>toLowerCase\<close>).
\<close>

fun is_string :: "jsval \<Rightarrow> bool" where
  "is_string (JStr s) = True"
| "is_string v = False"

definition own_code_throws :: "jsval \<Rightarrow> bool" where
  "own_code_throws body =
     (body = JUndefined \<or> body = JNull \<or>
      (truthy (get_prop body ''email'') \<and> truthy (get_prop body ''role'') \<and>
       (validateEmail (get_prop body ''email'') = None \<or>
        (validateEmail (get_prop body ''email'') = Some True
           \<and> \<not> is_string (get_prop body ''email'')))))"

text \<open>
  An identity is at the limit when its entry is inside its window with a count that
  has reached the maximum.  A request consumes a slot when, after it, the entry of its
  lower-cased email is the old one with the count incremented, or a new one (created,
  or reset after the window) with count 1 and the window starting now.
\<close>

definition at_limit :: "int \<Rightarrow> string \<Rightarrow> tracker \<Rightarrow> bool" where
  "at_limit now key tracker =
     (case tracker key of
        None \<Rightarrow> False
      | Some d \<Rightarrow> \<not> now - firstSubmission d > RATE_LIMIT_WINDOW
                  \<and> count d \<ge> MAX_SUBMISSIONS_PER_EMAIL)"

definition consumes_slot ::
  "env \<Rightarrow> (axios_request \<Rightarrow> axios_result) \<Rightarrow> clock \<Rightarrow> jsval \<Rightarrow> tracker \<Rightarrow> bool" where
  "consumes_slot e axios_post clk body tracker =
     (fst (snd (post_waitlist e axios_post clk body tracker))
        (lower_cased (get_prop body ''email'')) =
      Some (case tracker (lower_cased (get_prop body ''email'')) of
              None \<Rightarrow> \<lparr>count = 1, firstSubmission = Date_now clk\<rparr>
            | Some d \<Rightarrow>
                if Date_now clk - firstSubmission d > RATE_LIMIT_WINDOW
                then \<lparr>count = 1, firstSubmission = Date_now clk\<rparr>
                else d\<lparr>count := count d + 1\<rparr>))"

text \<open>
  The ways the remote call can end, as the specification tells them apart, how the
  settled promise is classified, and the status the specification gives to each.
\<close>

datatype remote_outcome = Succeeded | StructuredError nat | TimedOut | NoResponse

fun classify :: "axios_result \<Rightarrow> remote_outcome" where
  "classify (Resolved r) = Succeeded"
| "classify (Rejected error) =
     (case response error of
        Some r \<Rightarrow> StructuredError (status r)
      | None \<Rightarrow> if code error = Some ''ECONNABORTED'' then TimedOut else NoResponse)"

fun equivalent_status :: "remote_outcome \<Rightarrow> nat" where
  "equivalent_status Succeeded = 200"
| "equivalent_status (StructuredError n) =
     (if n = 400 then 400 else if n = 401 then 500 else if n = 404 then 500
      else if n = 429 then 429 else 500)"
| "equivalent_status TimedOut = 408"
| "equivalent_status NoResponse = 500"

text \<open>The messages of the replies that report a failure.\<close>

definition error_messages :: "string list" where
  "error_messages =
     [''Email and role are required'',
      ''Please enter a valid email address'',
      ''Too many submissions. Please try again later.'',
      ''Invalid role selected'',
      ''Server configuration error. Please contact support.'',
      ''Invalid request format. Please try again.'',
      ''Server authentication error. Please contact support.'',
      ''Database configuration error. Please contact support.'',
      ''Server is busy. Please try again in a moment.'',
      ''Something went wrong. Please try again.'',
      ''Request timeout. Please try again.'',
      ''Network error. Please check your connection and try again.'']"

text \<open>
  Reading the payload back: a path of property names, and an index into an array.
  A calendar date \<^verbatim>\<open>YYYY-MM-DD\<close> is ten characters, digits but for the two hyphens.
\<close>

definition get_path :: "jsval \<Rightarrow> string list \<Rightarrow> jsval" where
  "get_path v names = foldl get_prop v names"

fun get_index :: "jsval \<Rightarrow> nat \<Rightarrow> jsval" where
  "get_index (JArr xs) i = (if i < length xs then xs ! i else JUndefined)"
| "get_index v i = JUndefined"

definition iso_date :: "string \<Rightarrow> bool" where
  "iso_date d =
     list_all2 (\<lambda>p c. if p = CHR ''-'' then c = CHR ''-'' else c \<in> set ''0123456789'')
       ''YYYY-MM-DD'' d"

text \<open>Sample inputs: a configured environment, a healthy and a failing remote service,
  a clock, an empty tracker and some request bodies.\<close>

definition unset_env :: env where
  "unset_env = \<lparr>NOTION_TOKEN = None, NOTION_DATABASE_ID = None\<rparr>"

definition sample_env :: env where
  "sample_env = \<lparr>NOTION_TOKEN = Some ''secret'', NOTION_DATABASE_ID = Some ''db1''\<rparr>"

definition sample_clock :: clock where
  "sample_clock = \<lparr>Date_now = 1000, toISOString = ''2025-05-03T10:11:12.123Z''\<rparr>"

definition healthy_upstream :: "axios_request \<Rightarrow> axios_result" where
  "healthy_upstream request = Resolved \<lparr>status = 200, data = JObj []\<rparr>"

definition failing_upstream :: "nat \<Rightarrow> jsval \<Rightarrow> axios_request \<Rightarrow> axios_result" where
  "failing_upstream n detail request =
     Rejected \<lparr>response = Some \<lparr>status = n, data = detail\<rparr>, code = Some ''ERR_BAD_REQUEST''\<rparr>"

definition no_submissions :: tracker where
  "no_submissions = Map.empty"

definition sample_body :: "jsval \<Rightarrow> jsval \<Rightarrow> jsval" where
  "sample_body email role = JObj [(''email'', email), (''role'', role)]"

text \<open>The reply once the awaited promise has settled: the last line of the
  \<^verbatim>\<open>try\<close> block, or the \<^verbatim>\<open>catch\<close> block on the rejection.\<close>

definition finish :: "axios_result \<Rightarrow> reply" where
  "finish r =
     (case r of
        Resolved x \<Rightarrow> json 200 True ''Successfully added to waitlist! We'll be in touch soon.''
      | Rejected error \<Rightarrow> catch_block error)"

section \<open>Properties\<close>

subsection \<open>Properties of the rate limiter\<close>

lemma isRateLimited_absent:
  "t email = None \<Longrightarrow>
   isRateLimited now email t = (False, t(email \<mapsto> \<lparr>count = 1, firstSubmission = now\<rparr>))"
  by (simp add: isRateLimited_def)

lemma isRateLimited_expired:
  "t email = Some d \<Longrightarrow> now - firstSubmission d > RATE_LIMIT_WINDOW \<Longrightarrow>
   isRateLimited now email t = (False, t(email \<mapsto> \<lparr>count = 1, firstSubmission = now\<rparr>))"
  by (simp add: isRateLimited_def)

lemma isRateLimited_blocked:
  "t email = Some d \<Longrightarrow> \<not> now - firstSubmission d > RATE_LIMIT_WINDOW \<Longrightarrow>
   count d \<ge> MAX_SUBMISSIONS_PER_EMAIL \<Longrightarrow> isRateLimited now email t = (True, t)"
  by (simp add: isRateLimited_def)

lemma isRateLimited_counted:
  "t email = Some d \<Longrightarrow> \<not> now - firstSubmission d > RATE_LIMIT_WINDOW \<Longrightarrow>
   \<not> count d \<ge> MAX_SUBMISSIONS_PER_EMAIL \<Longrightarrow>
   isRateLimited now email t = (False, t(email \<mapsto> d\<lparr>count := count d + 1\<rparr>))"
  by (simp add: isRateLimited_def)

lemma isRateLimited_other_key:
  "k \<noteq> email \<Longrightarrow> snd (isRateLimited now email t) k = t k"
  by (simp add: isRateLimited_def split: option.split)

lemma bounded_empty: "bounded Map.empty"
  by (simp add: bounded_def)

lemma bounded_step:
  assumes "bounded t"
  shows "bounded (snd (isRateLimited now email t))"
  unfolding bounded_def
proof (intro allI impI)
  fix k d
  assume got: "snd (isRateLimited now email t) k = Some d"
  show "1 \<le> count d \<and> count d \<le> MAX_SUBMISSIONS_PER_EMAIL"
  proof (cases "k = email")
    case False
    with got have "t k = Some d"
      by (simp add: isRateLimited_other_key)
    with assms show ?thesis
      by (simp add: bounded_def)
  next
    case True
    show ?thesis
    proof (cases "t email")
      case None
      with got True show ?thesis
        by (auto simp: isRateLimited_absent MAX_SUBMISSIONS_PER_EMAIL_def)
    next
      case (Some d0)
      with assms have d0: "1 \<le> count d0" "count d0 \<le> MAX_SUBMISSIONS_PER_EMAIL"
        by (simp_all add: bounded_def)
      from got True Some d0 show ?thesis
        by (auto simp: isRateLimited_def MAX_SUBMISSIONS_PER_EMAIL_def split: if_splits)
    qed
  qed
qed

lemma reachable_bounded: "reachable t \<Longrightarrow> bounded t"
  by (induction rule: reachable.induct) (simp_all add: bounded_empty bounded_step)

lemma reachable_run_calls: "reachable t \<Longrightarrow> reachable (run_calls cs t)"
proof (induction cs arbitrary: t)
  case Nil
  then show ?case by simp
next
  case (Cons c cs)
  obtain now email where c: "c = (now, email)"
    by (cases c)
  from Cons.prems have "reachable (snd (isRateLimited now email t))"
    by (rule reachable.call)
  then show ?case
    using Cons.IH c by simp
qed

text \<open>
  Claim C1.  While \<^verbatim>\<open>now - firstSubmission\<close> is within the window, a stored count
  that is already at least \<^verbatim>\<open>MAX_SUBMISSIONS_PER_EMAIL\<close> makes \<^verbatim>\<open>isRateLimited\<close>
  return true and leave the tracker as it is; and in every tracker reached from the
  empty map by calls of \<^verbatim>\<open>isRateLimited\<close> (any identities, any clock readings) the
  count of every key is at most \<^verbatim>\<open>MAX_SUBMISSIONS_PER_EMAIL\<close>, which is 3.
\<close>

theorem C1_count_never_exceeds_max:
  "MAX_SUBMISSIONS_PER_EMAIL = 3 \<and>
   (\<forall>t email d now.
      t email = Some d \<and> count d \<ge> MAX_SUBMISSIONS_PER_EMAIL
        \<and> now - firstSubmission d \<le> RATE_LIMIT_WINDOW
      \<longrightarrow> isRateLimited now email t = (True, t)) \<and>
   (\<forall>cs k d. run_calls cs Map.empty k = Some d \<longrightarrow> count d \<le> MAX_SUBMISSIONS_PER_EMAIL) \<and>
   (\<forall>t k d. reachable t \<and> t k = Some d \<longrightarrow> count d \<le> MAX_SUBMISSIONS_PER_EMAIL)"
proof (intro conjI allI impI)
  show "MAX_SUBMISSIONS_PER_EMAIL = 3"
    by (simp add: MAX_SUBMISSIONS_PER_EMAIL_def)
next
  fix t :: tracker and email d now
  assume "t email = Some d \<and> count d \<ge> MAX_SUBMISSIONS_PER_EMAIL
            \<and> now - firstSubmission d \<le> RATE_LIMIT_WINDOW"
  then show "isRateLimited now email t = (True, t)"
    by (simp add: isRateLimited_blocked)
next
  fix cs k d
  assume got: "run_calls cs Map.empty k = Some d"
  have "reachable (run_calls cs Map.empty)"
    by (rule reachable_run_calls) (rule reachable.start)
  then have "bounded (run_calls cs Map.empty)"
    by (rule reachable_bounded)
  with got show "count d \<le> MAX_SUBMISSIONS_PER_EMAIL"
    by (simp add: bounded_def)
next
  fix t :: tracker and k d
  assume "reachable t \<and> t k = Some d"
  then have "bounded t" and "t k = Some d"
    by (simp_all add: reachable_bounded)
  then show "count d \<le> MAX_SUBMISSIONS_PER_EMAIL"
    by (simp add: bounded_def)
qed

theorem C1_count_never_exceeds_max_witness:
  "run_calls [(0, ''a@b.c''), (10, ''a@b.c''), (20, ''a@b.c'')] Map.empty ''a@b.c''
     = Some \<lparr>count = 3, firstSubmission = 0\<rparr> \<and>
   count \<lparr>count = 3, firstSubmission = 0\<rparr> \<le> MAX_SUBMISSIONS_PER_EMAIL \<and>
   isRateLimited 30 ''a@b.c''
       (run_calls [(0, ''a@b.c''), (10, ''a@b.c''), (20, ''a@b.c'')] Map.empty)
     = (True, run_calls [(0, ''a@b.c''), (10, ''a@b.c''), (20, ''a@b.c'')] Map.empty)"
proof -
  let ?t = "run_calls [(0, ''a@b.c''), (10, ''a@b.c''), (20, ''a@b.c'')] Map.empty"
  let ?d = "\<lparr>count = 3, firstSubmission = 0\<rparr>"
  have got: "?t ''a@b.c'' = Some ?d"
    by (simp add: isRateLimited_def RATE_LIMIT_WINDOW_def MAX_SUBMISSIONS_PER_EMAIL_def)
  have full: "count ?d \<ge> MAX_SUBMISSIONS_PER_EMAIL"
    by (simp add: MAX_SUBMISSIONS_PER_EMAIL_def)
  have inside: "30 - firstSubmission ?d \<le> RATE_LIMIT_WINDOW"
    by (simp add: RATE_LIMIT_WINDOW_def)
  from C1_count_never_exceeds_max got
  have "count ?d \<le> MAX_SUBMISSIONS_PER_EMAIL"
    by blast
  moreover from C1_count_never_exceeds_max got full inside
  have "isRateLimited 30 ''a@b.c'' ?t = (True, ?t)"
    by blast
  ultimately show ?thesis
    using got by simp
qed

text \<open>
  Claim C2.  For one identity with no entry yet: the first three calls are not limited,
  a fourth call is limited as long as the clock is within the window that the first
  call opened, and a later call more than \<^verbatim>\<open>RATE_LIMIT_WINDOW\<close> (15 minutes, in
  milliseconds) after the start of the window is not limited and resets the entry to
  count 1 with the window starting at that call.
\<close>

theorem C2_three_pass_fourth_blocked_then_reset:
  assumes fresh: "t0 email = None"
    and w2: "n2 - n1 \<le> RATE_LIMIT_WINDOW"
    and w3: "n3 - n1 \<le> RATE_LIMIT_WINDOW"
    and w4: "n4 - n1 \<le> RATE_LIMIT_WINDOW"
    and w5: "n5 - n1 > RATE_LIMIT_WINDOW"
    and t1: "t1 = snd (isRateLimited n1 email t0)"
    and t2: "t2 = snd (isRateLimited n2 email t1)"
    and t3: "t3 = snd (isRateLimited n3 email t2)"
    and t4: "t4 = snd (isRateLimited n4 email t3)"
    and t5: "t5 = snd (isRateLimited n5 email t4)"
  shows "RATE_LIMIT_WINDOW = 15 * 60 * 1000 \<and>
         \<not> fst (isRateLimited n1 email t0) \<and>
         \<not> fst (isRateLimited n2 email t1) \<and>
         \<not> fst (isRateLimited n3 email t2) \<and>
         fst (isRateLimited n4 email t3) \<and> t4 = t3 \<and>
         \<not> fst (isRateLimited n5 email t4) \<and>
         t5 email = Some \<lparr>count = 1, firstSubmission = n5\<rparr>"
proof -
  have r1: "isRateLimited n1 email t0
      = (False, t0(email \<mapsto> \<lparr>count = 1, firstSubmission = n1\<rparr>))"
    using fresh by (rule isRateLimited_absent)
  then have e1: "t1 email = Some \<lparr>count = 1, firstSubmission = n1\<rparr>"
    using t1 by simp
  have r2: "isRateLimited n2 email t1
      = (False, t1(email \<mapsto> \<lparr>count = 2, firstSubmission = n1\<rparr>))"
    using e1 w2 by (simp add: isRateLimited_def MAX_SUBMISSIONS_PER_EMAIL_def numeral_2_eq_2)
  then have e2: "t2 email = Some \<lparr>count = 2, firstSubmission = n1\<rparr>"
    using t2 by simp
  have r3: "isRateLimited n3 email t2
      = (False, t2(email \<mapsto> \<lparr>count = 3, firstSubmission = n1\<rparr>))"
    using e2 w3
    by (simp add: isRateLimited_def MAX_SUBMISSIONS_PER_EMAIL_def numeral_2_eq_2 numeral_3_eq_3)
  then have e3: "t3 email = Some \<lparr>count = 3, firstSubmission = n1\<rparr>"
    using t3 by simp
  have r4: "isRateLimited n4 email t3 = (True, t3)"
    using e3 w4 by (simp add: isRateLimited_def MAX_SUBMISSIONS_PER_EMAIL_def)
  then have same: "t4 = t3"
    using t4 by simp
  have r5: "isRateLimited n5 email t4
      = (False, t4(email \<mapsto> \<lparr>count = 1, firstSubmission = n5\<rparr>))"
    using e3 same w5 by (simp add: isRateLimited_def)
  then have e5: "t5 email = Some \<lparr>count = 1, firstSubmission = n5\<rparr>"
    using t5 by simp
  show ?thesis
    using r1 r2 r3 r4 r5 same e5 by (simp add: RATE_LIMIT_WINDOW_def)
qed

theorem C2_three_pass_fourth_blocked_then_reset_witness:
  "(Map.empty :: tracker) ''a@b.c'' = None \<and>
   (1000::int) - 1000 \<le> RATE_LIMIT_WINDOW \<and> (901001::int) - 1000 > RATE_LIMIT_WINDOW \<and>
   \<not> fst (isRateLimited 1000 ''a@b.c'' Map.empty) \<and>
   \<not> fst (isRateLimited 1000 ''a@b.c'' (run_calls [(1000, ''a@b.c'')] Map.empty)) \<and>
   \<not> fst (isRateLimited 1000 ''a@b.c''
          (run_calls [(1000, ''a@b.c''), (1000, ''a@b.c'')] Map.empty)) \<and>
   fst (isRateLimited 1000 ''a@b.c''
          (run_calls [(1000, ''a@b.c''), (1000, ''a@b.c''), (1000, ''a@b.c'')] Map.empty)) \<and>
   \<not> fst (isRateLimited 901001 ''a@b.c''
          (run_calls [(1000, ''a@b.c''), (1000, ''a@b.c''), (1000, ''a@b.c''),
                      (1000, ''a@b.c'')] Map.empty)) \<and>
   run_calls [(1000, ''a@b.c''), (1000, ''a@b.c''), (1000, ''a@b.c''), (1000, ''a@b.c''),
              (901001, ''a@b.c'')] Map.empty ''a@b.c''
     = Some \<lparr>count = 1, firstSubmission = 901001\<rparr>"
proof -
  have w: "(1000::int) - 1000 \<le> RATE_LIMIT_WINDOW"
    and w5: "(901001::int) - 1000 > RATE_LIMIT_WINDOW"
    by (simp_all add: RATE_LIMIT_WINDOW_def)
  have fresh: "(Map.empty :: tracker) ''a@b.c'' = None"
    by simp
  note C2_three_pass_fourth_blocked_then_reset
    [where ?t0.0 = Map.empty and email = "''a@b.c''" and ?n1.0 = 1000 and ?n2.0 = 1000
       and ?n3.0 = 1000 and ?n4.0 = 1000 and ?n5.0 = 901001,
     OF fresh w w w w5 refl refl refl refl refl]
  then show ?thesis
    using w w5 fresh unfolding run_calls.simps by blast
qed

subsection \<open>Email validation\<close>

lemma regex_test_Plus:
  "regex_test (Plus c # ps) s \<longleftrightarrow>
     (\<exists>u v. s = u @ v \<and> u \<noteq> [] \<and> (\<forall>x\<in>set u. in_class c x) \<and> regex_test ps v)"
proof (induction s)
  case Nil
  then show ?case by simp
next
  case (Cons x xs)
  show ?case
  proof
    assume "regex_test (Plus c # ps) (x # xs)"
    then have x: "in_class c x" and rest: "regex_test (Plus c # ps) xs \<or> regex_test ps xs"
      by simp_all
    from rest show "\<exists>u v. x # xs = u @ v \<and> u \<noteq> [] \<and> (\<forall>x\<in>set u. in_class c x) \<and> regex_test ps v"
    proof
      assume "regex_test (Plus c # ps) xs"
      with Cons.IH obtain u v where "xs = u @ v" "\<forall>x\<in>set u. in_class c x" "regex_test ps v"
        by blast
      with x have "x # xs = (x # u) @ v \<and> x # u \<noteq> [] \<and> (\<forall>y\<in>set (x # u). in_class c y) \<and> regex_test ps v"
        by simp
      then show ?thesis by blast
    next
      assume "regex_test ps xs"
      with x have "x # xs = [x] @ xs \<and> [x] \<noteq> [] \<and> (\<forall>y\<in>set [x]. in_class c y) \<and> regex_test ps xs"
        by simp
      then show ?thesis by blast
    qed
  next
    assume "\<exists>u v. x # xs = u @ v \<and> u \<noteq> [] \<and> (\<forall>x\<in>set u. in_class c x) \<and> regex_test ps v"
    then obtain u v where s: "x # xs = u @ v" and ne: "u \<noteq> []"
      and cls: "\<forall>x\<in>set u. in_class c x" and tl: "regex_test ps v"
      by blast
    from s ne obtain u' where u: "u = x # u'" and xs: "xs = u' @ v"
      by (cases u) auto
    show "regex_test (Plus c # ps) (x # xs)"
    proof (cases "u' = []")
      case True
      with u xs cls tl show ?thesis by simp
    next
      case False
      with xs u cls tl have "regex_test (Plus c # ps) xs"
        using Cons.IH by auto
      with u cls show ?thesis by simp
    qed
  qed
qed

lemma in_class_NoneOf_plain:
  "(\<forall>x\<in>set u. in_class (NoneOf (whitespace @ ''@'')) x) = plain u"
  by (auto simp: plain_def)

lemma regex_test_Once:
  "regex_test (Once (Chr c) # ps) s \<longleftrightarrow> (\<exists>v. s = c # v \<and> regex_test ps v)"
  by (cases s) auto

lemma regex_test_Plus_end:
  "regex_test [Plus c] s \<longleftrightarrow> s \<noteq> [] \<and> (\<forall>x\<in>set s. in_class c x)"
  by (auto simp: regex_test_Plus)

lemma emailRegex_shape:
  "regex_test emailRegex s \<longleftrightarrow>
     (\<exists>l d t. s = l @ CHR ''@'' # d @ CHR ''.'' # t
        \<and> l \<noteq> [] \<and> d \<noteq> [] \<and> t \<noteq> [] \<and> plain l \<and> plain d \<and> plain t)"
proof -
  have "regex_test emailRegex s \<longleftrightarrow>
      (\<exists>l r. s = l @ r \<and> l \<noteq> [] \<and> plain l \<and>
         (\<exists>r'. r = CHR ''@'' # r' \<and>
            (\<exists>d q. r' = d @ q \<and> d \<noteq> [] \<and> plain d \<and>
               (\<exists>t. q = CHR ''.'' # t \<and> t \<noteq> [] \<and> plain t))))"
    unfolding emailRegex_def
    by (simp only: regex_test_Plus_end regex_test_Once in_class_NoneOf_plain
          regex_test_Plus [where ps = "p # ps" for p ps])
  also have "\<dots> \<longleftrightarrow>
      (\<exists>l d t. s = l @ CHR ''@'' # d @ CHR ''.'' # t
         \<and> l \<noteq> [] \<and> d \<noteq> [] \<and> t \<noteq> [] \<and> plain l \<and> plain d \<and> plain t)"
    by blast
  finally show ?thesis .
qed

lemma validateEmail_JStr: "validateEmail (JStr s) = Some (regex_test emailRegex s)"
  by (simp add: validateEmail_def)

lemma plain_no_at: "plain u \<Longrightarrow> CHR ''@'' \<notin> set u"
  by (simp add: plain_def) blast

lemma plain_no_space: "plain u \<Longrightarrow> c \<in> set u \<Longrightarrow> c \<notin> set whitespace"
  by (simp add: plain_def)

lemma at_dot_no_space: "CHR ''@'' \<notin> set whitespace" "CHR ''.'' \<notin> set whitespace"
  by (simp_all add: whitespace_def)

lemma emailRegex_no_space:
  assumes "regex_test emailRegex s" and "c \<in> set s"
  shows "c \<notin> set whitespace"
proof -
  from assms(1) obtain l d t where s: "s = l @ CHR ''@'' # d @ CHR ''.'' # t"
    and p: "plain l" "plain d" "plain t"
    unfolding emailRegex_shape by blast
  from assms(2) s
  consider "c \<in> set l" | "c \<in> set d" | "c \<in> set t" | "c = CHR ''@''" | "c = CHR ''.''"
    by auto
  then show ?thesis
  proof cases
    case 1
    with p(1) show ?thesis by (rule plain_no_space)
  next
    case 2
    with p(2) show ?thesis by (rule plain_no_space)
  next
    case 3
    with p(3) show ?thesis by (rule plain_no_space)
  next
    case 4
    then show ?thesis by (simp only: at_dot_no_space not_False_eq_True)
  next
    case 5
    then show ?thesis by (simp only: at_dot_no_space not_False_eq_True)
  qed
qed

lemma emailRegex_one_at:
  assumes "regex_test emailRegex s"
  shows "count_list s CHR ''@'' = 1"
proof -
  from assms obtain l d t where s: "s = l @ CHR ''@'' # d @ CHR ''.'' # t"
    and p: "plain l" "plain d" "plain t"
    unfolding emailRegex_shape by blast
  from p have "count_list l CHR ''@'' = 0" "count_list d CHR ''@'' = 0"
    "count_list t CHR ''@'' = 0"
    by (simp_all add: plain_no_at)
  with s show ?thesis
    by simp
qed

lemma emailRegex_dot_after_at:
  assumes "regex_test emailRegex s"
  shows "\<exists>u v. s = u @ CHR ''@'' # v \<and> CHR ''.'' \<in> set v"
proof -
  from assms obtain l d t where s: "s = l @ CHR ''@'' # (d @ CHR ''.'' # t)"
    unfolding emailRegex_shape by auto
  have "CHR ''.'' \<in> set (d @ CHR ''.'' # t)"
    by simp
  with s show ?thesis
    by blast
qed

text \<open>
  Claim C4.  \<^verbatim>\<open>validateEmail\<close> rejects (returns false on) every string that contains
  white space, every string without \<^verbatim>\<open>@\<close>, every string with more than one
  \<^verbatim>\<open>@\<close>, and every string with no \<^verbatim>\<open>.\<close> after an \<^verbatim>\<open>@\<close>; it accepts
  (returns true on) every string \<^verbatim>\<open>local@domain.tld\<close> whose three parts are
  non-empty and free of white space and of \<^verbatim>\<open>@\<close>.
\<close>

theorem C4_validateEmail:
  "(\<forall>s. (\<exists>c\<in>set s. c \<in> set whitespace) \<longrightarrow> validateEmail (JStr s) = Some False) \<and>
   (\<forall>s. CHR ''@'' \<notin> set s \<longrightarrow> validateEmail (JStr s) = Some False) \<and>
   (\<forall>s. count_list s CHR ''@'' > 1 \<longrightarrow> validateEmail (JStr s) = Some False) \<and>
   (\<forall>s. (\<forall>u v. s = u @ CHR ''@'' # v \<longrightarrow> CHR ''.'' \<notin> set v)
      \<longrightarrow> validateEmail (JStr s) = Some False) \<and>
   (\<forall>l d t. l \<noteq> [] \<and> d \<noteq> [] \<and> t \<noteq> [] \<and> plain l \<and> plain d \<and> plain t
      \<longrightarrow> validateEmail (JStr (l @ ''@'' @ d @ ''.'' @ t)) = Some True)"
proof (intro conjI allI impI)
  fix s
  assume "\<exists>c\<in>set s. c \<in> set whitespace"
  then have "\<not> regex_test emailRegex s"
    using emailRegex_no_space by blast
  then show "validateEmail (JStr s) = Some False"
    by (simp only: validateEmail_JStr)
next
  fix s
  assume noat: "CHR ''@'' \<notin> set s"
  have "\<not> regex_test emailRegex s"
  proof
    assume "regex_test emailRegex s"
    then have "count_list s CHR ''@'' = 1"
      by (rule emailRegex_one_at)
    with noat show False
      by simp
  qed
  then show "validateEmail (JStr s) = Some False"
    by (simp only: validateEmail_JStr)
next
  fix s
  assume more: "count_list s CHR ''@'' > 1"
  have "\<not> regex_test emailRegex s"
  proof
    assume "regex_test emailRegex s"
    then have "count_list s CHR ''@'' = 1"
      by (rule emailRegex_one_at)
    with more show False
      by simp
  qed
  then show "validateEmail (JStr s) = Some False"
    by (simp only: validateEmail_JStr)
next
  fix s
  assume nodot: "\<forall>u v. s = u @ CHR ''@'' # v \<longrightarrow> CHR ''.'' \<notin> set v"
  have "\<not> regex_test emailRegex s"
  proof
    assume "regex_test emailRegex s"
    then have "\<exists>u v. s = u @ CHR ''@'' # v \<and> CHR ''.'' \<in> set v"
      by (rule emailRegex_dot_after_at)
    with nodot show False
      by blast
  qed
  then show "validateEmail (JStr s) = Some False"
    by (simp only: validateEmail_JStr)
next
  fix l d t :: string
  assume ok: "l \<noteq> [] \<and> d \<noteq> [] \<and> t \<noteq> [] \<and> plain l \<and> plain d \<and> plain t"
  have "l @ ''@'' @ d @ ''.'' @ t = l @ CHR ''@'' # d @ CHR ''.'' # t"
    by simp
  with ok have "regex_test emailRegex (l @ ''@'' @ d @ ''.'' @ t)"
    unfolding emailRegex_shape by blast
  then show "validateEmail (JStr (l @ ''@'' @ d @ ''.'' @ t)) = Some True"
    by (simp only: validateEmail_JStr)
qed

theorem C4_validateEmail_witness:
  "validateEmail (JStr ''a@b.com'') = Some True \<and>
   validateEmail (JStr ''a b@c.com'') = Some False \<and>
   validateEmail (JStr ''bad-email'') = Some False \<and>
   validateEmail (JStr ''a@b@c.com'') = Some False \<and>
   validateEmail (JStr ''a.b@com'') = Some False"
proof -
  have acc: "''a'' \<noteq> [] \<and> ''b'' \<noteq> [] \<and> ''com'' \<noteq> [] \<and> plain ''a'' \<and> plain ''b'' \<and> plain ''com''"
    by (simp add: plain_def whitespace_def)
  have sp: "\<exists>c\<in>set ''a b@c.com''. c \<in> set whitespace"
    by (simp add: whitespace_def)
  have noat: "CHR ''@'' \<notin> set ''bad-email''"
    by simp
  have two: "count_list ''a@b@c.com'' CHR ''@'' > 1"
    by simp
  have nodot: "\<forall>u v. ''a.b@com'' = u @ CHR ''@'' # v \<longrightarrow> CHR ''.'' \<notin> set v"
    by (auto simp: Cons_eq_append_conv)
  from C4_validateEmail acc
  have "validateEmail (JStr (''a'' @ ''@'' @ ''b'' @ ''.'' @ ''com'')) = Some True"
    by blast
  moreover from C4_validateEmail sp have "validateEmail (JStr ''a b@c.com'') = Some False"
    by blast
  moreover from C4_validateEmail noat have "validateEmail (JStr ''bad-email'') = Some False"
    by blast
  moreover from C4_validateEmail two have "validateEmail (JStr ''a@b@c.com'') = Some False"
    by blast
  moreover from C4_validateEmail nodot have "validateEmail (JStr ''a.b@com'') = Some False"
    by blast
  ultimately show ?thesis
    by simp
qed

subsection \<open>The submission handler\<close>

lemma post_waitlist_no_body:
  "body = JUndefined \<or> body = JNull \<Longrightarrow>
   post_waitlist e axios_post clk body tracker
     = (json 500 False ''Network error. Please check your connection and try again.'',
        tracker, [])"
  by (auto simp: post_waitlist_def try_block_def catch_block_def TypeError_def)

lemma post_waitlist_missing:
  assumes "body \<noteq> JUndefined" "body \<noteq> JNull"
    and "\<not> truthy (get_prop body ''email'') \<or> \<not> truthy (get_prop body ''role'')"
  shows "post_waitlist e axios_post clk body tracker
     = (json 400 False ''Email and role are required'', tracker, [])"
  using assms by (auto simp: post_waitlist_def try_block_def)

lemma post_waitlist_unconvertible:
  assumes "body \<noteq> JUndefined" "body \<noteq> JNull"
    and "truthy (get_prop body ''email'')" "truthy (get_prop body ''role'')"
    and "validateEmail (get_prop body ''email'') = None"
  shows "post_waitlist e axios_post clk body tracker
     = (json 500 False ''Network error. Please check your connection and try again.'',
        tracker, [])"
  using assms
  by (simp add: post_waitlist_def try_block_def catch_block_def TypeError_def)

lemma post_waitlist_invalid_email:
  assumes "body \<noteq> JUndefined" "body \<noteq> JNull"
    and "truthy (get_prop body ''email'')" "truthy (get_prop body ''role'')"
    and "validateEmail (get_prop body ''email'') = Some False"
  shows "post_waitlist e axios_post clk body tracker
     = (json 400 False ''Please enter a valid email address'', tracker, [])"
  using assms by (simp add: post_waitlist_def try_block_def)

lemma post_waitlist_not_string:
  assumes "body \<noteq> JUndefined" "body \<noteq> JNull"
    and "truthy (get_prop body ''email'')" "truthy (get_prop body ''role'')"
    and "validateEmail (get_prop body ''email'') = Some True"
    and "\<not> is_string (get_prop body ''email'')"
  shows "post_waitlist e axios_post clk body tracker
     = (json 500 False ''Network error. Please check your connection and try again.'',
        tracker, [])"
  using assms
  by (cases "get_prop body ''email''")
     (simp_all add: post_waitlist_def try_block_def catch_block_def TypeError_def)

lemma post_waitlist_string:
  assumes "body \<noteq> JUndefined" "body \<noteq> JNull"
    and "get_prop body ''email'' = JStr s" "s \<noteq> []" "truthy (get_prop body ''role'')"
    and "validateEmail (JStr s) = Some True"
  shows "post_waitlist e axios_post clk body tracker =
     (if fst (isRateLimited (Date_now clk) (toLowerCase s) tracker) then
        (json 429 False ''Too many submissions. Please try again later.'',
         snd (isRateLimited (Date_now clk) (toLowerCase s) tracker), [])
      else if \<not> Array_includes validRoles (get_prop body ''role'') then
        (json 400 False ''Invalid role selected'',
         snd (isRateLimited (Date_now clk) (toLowerCase s) tracker), [])
      else if \<not> truthy (getenv (NOTION_TOKEN e)) \<or> \<not> truthy (getenv (NOTION_DATABASE_ID e)) then
        (json 500 False ''Server configuration error. Please contact support.'',
         snd (isRateLimited (Date_now clk) (toLowerCase s) tracker), [])
      else
        (finish (axios_post (notionRequest e
                   (notionPayload e clk (JStr s) (get_prop body ''role'')))),
         snd (isRateLimited (Date_now clk) (toLowerCase s) tracker),
         [notionRequest e (notionPayload e clk (JStr s) (get_prop body ''role''))]))"
proof -
  obtain limited tracker' where
    lim: "isRateLimited (Date_now clk) (toLowerCase s) tracker = (limited, tracker')"
    by (cases "isRateLimited (Date_now clk) (toLowerCase s) tracker")
  show ?thesis
    using assms lim
    by (simp add: post_waitlist_def try_block_def finish_def Let_def
          split: axios_result.split)
qed

lemma get_prop_present: "get_prop body name = JStr s \<Longrightarrow> body \<noteq> JUndefined \<and> body \<noteq> JNull"
  by (cases body) simp_all

lemma is_string_iff: "is_string v \<longleftrightarrow> (\<exists>s. v = JStr s)"
  by (cases v) simp_all

text \<open>
  The six ways a request body can go through the first statements of the handler.
\<close>

lemma body_cases:
  obtains (absent) "body = JUndefined \<or> body = JNull"
  | (missing) "body \<noteq> JUndefined" "body \<noteq> JNull"
      "\<not> truthy (get_prop body ''email'') \<or> \<not> truthy (get_prop body ''role'')"
  | (unconvertible) "body \<noteq> JUndefined" "body \<noteq> JNull"
      "truthy (get_prop body ''email'')" "truthy (get_prop body ''role'')"
      "validateEmail (get_prop body ''email'') = None"
  | (invalid) "body \<noteq> JUndefined" "body \<noteq> JNull"
      "truthy (get_prop body ''email'')" "truthy (get_prop body ''role'')"
      "validateEmail (get_prop body ''email'') = Some False"
  | (not_string) "body \<noteq> JUndefined" "body \<noteq> JNull"
      "truthy (get_prop body ''email'')" "truthy (get_prop body ''role'')"
      "validateEmail (get_prop body ''email'') = Some True"
      "\<not> is_string (get_prop body ''email'')"
  | (checked) s where "body \<noteq> JUndefined" "body \<noteq> JNull" "get_prop body ''email'' = JStr s"
      "s \<noteq> []" "truthy (get_prop body ''role'')" "validateEmail (JStr s) = Some True"
proof (cases "body = JUndefined \<or> body = JNull")
  case True
  then show ?thesis by (rule absent)
next
  case present: False
  show ?thesis
  proof (cases "\<not> truthy (get_prop body ''email'') \<or> \<not> truthy (get_prop body ''role'')")
    case True
    with present show ?thesis
      by (intro missing) simp_all
  next
    case filled: False
    show ?thesis
    proof (cases "validateEmail (get_prop body ''email'')")
      case None
      with present filled show ?thesis
        by (intro unconvertible) simp_all
    next
      case (Some valid)
      show ?thesis
      proof (cases valid)
        case False
        with present filled Some show ?thesis
          by (intro invalid) simp_all
      next
        case True
        show ?thesis
        proof (cases "is_string (get_prop body ''email'')")
          case False
          with present filled Some True show ?thesis
            by (intro not_string) simp_all
        next
          case str: True
          then obtain s where "get_prop body ''email'' = JStr s"
            unfolding is_string_iff by blast
          with present filled Some True show ?thesis
            by (intro checked [of s]) simp_all
        qed
      qed
    qed
  qed
qed

lemma own_code_throws_reply:
  assumes "own_code_throws body"
  shows "post_waitlist e axios_post clk body tracker
     = (json 500 False ''Network error. Please check your connection and try again.'',
        tracker, [])"
proof (cases body rule: body_cases)
  case absent
  then show ?thesis by (rule post_waitlist_no_body)
next
  case missing
  with assms show ?thesis by (simp add: own_code_throws_def)
next
  case unconvertible
  then show ?thesis by (rule post_waitlist_unconvertible)
next
  case invalid
  with assms show ?thesis by (simp add: own_code_throws_def)
next
  case not_string
  then show ?thesis by (rule post_waitlist_not_string)
next
  case (checked s)
  with assms show ?thesis by (simp add: own_code_throws_def)
qed

lemma first_failure_cases:
  "first_failure e clk body tracker =
     (if fails e clk body tracker MissingFields then Some MissingFields
      else if fails e clk body tracker InvalidEmail then Some InvalidEmail
      else if fails e clk body tracker RateLimited then Some RateLimited
      else if fails e clk body tracker InvalidRole then Some InvalidRole
      else if fails e clk body tracker ServerMisconfigured then Some ServerMisconfigured
      else None)"
  by (simp add: first_failure_def validation_order_def)

lemma lower_cased_JStr: "lower_cased (JStr s) = toLowerCase s"
  by (simp add: lower_cased_def)

text \<open>
  Claim C3, as amended.  For every request body on which no statement of the handler
  itself throws (the body is present and not \<^verbatim>\<open>null\<close> and, when \<^verbatim>\<open>email\<close> and
  \<^verbatim>\<open>role\<close> are both non-empty, the email can be converted to a string for the
  pattern test and is a string if it passes the test): the checks are made in the order
  MissingFields, InvalidEmail, RateLimited, InvalidRole, ServerMisconfigured; the reply
  is the rejection of the first check that fails, and then no remote call is made; the
  rate limiter is consulted with the lower-cased email once the two checks before it
  have passed, and not before; the credentials are checked after every check of the
  client's input and before the remote call.
\<close>

theorem C3_validation_order:
  assumes "\<not> own_code_throws body"
  shows "follows_validation_order e axios_post clk body tracker"
proof (cases body rule: body_cases)
  case absent
  with assms show ?thesis by (simp add: own_code_throws_def)
next
  case missing
  then have "first_failure e clk body tracker = Some MissingFields"
    by (simp add: first_failure_cases)
  moreover have "post_waitlist e axios_post clk body tracker
      = (rejection MissingFields, tracker, [])"
    using missing by (simp add: post_waitlist_missing)
  ultimately show ?thesis
    by (simp add: follows_validation_order_def)
next
  case unconvertible
  with assms show ?thesis by (simp add: own_code_throws_def)
next
  case invalid
  then have "first_failure e clk body tracker = Some InvalidEmail"
    by (simp add: first_failure_cases)
  moreover have "post_waitlist e axios_post clk body tracker
      = (rejection InvalidEmail, tracker, [])"
    using invalid by (simp add: post_waitlist_invalid_email)
  ultimately show ?thesis
    by (simp add: follows_validation_order_def)
next
  case not_string
  with assms show ?thesis by (simp add: own_code_throws_def)
next
  case (checked s)
  note post = post_waitlist_string [OF checked, of e axios_post clk tracker]
  have two: "\<not> fails e clk body tracker MissingFields"
    "\<not> fails e clk body tracker InvalidEmail"
    using checked by simp_all
  show ?thesis
    unfolding follows_validation_order_def first_failure_cases post
    using two checked(3) by (simp add: lower_cased_JStr)
qed

theorem C3_validation_order_witness:
  "\<not> own_code_throws (sample_body (JStr ''A@b.com'') (JStr ''Teacher'')) \<and>
   follows_validation_order sample_env healthy_upstream sample_clock
     (sample_body (JStr ''A@b.com'') (JStr ''Teacher'')) no_submissions \<and>
   fst (post_waitlist sample_env healthy_upstream sample_clock
     (sample_body (JStr ''A@b.com'') (JStr ''Teacher'')) no_submissions)
     = rejection InvalidRole"
proof -
  let ?body = "sample_body (JStr ''A@b.com'') (JStr ''Teacher'')"
  have email: "get_prop ?body ''email'' = JStr ''A@b.com''"
    and role: "get_prop ?body ''role'' = JStr ''Teacher''"
    by (simp_all add: sample_body_def)
  have valid: "validateEmail (JStr ''A@b.com'') = Some True"
    by (simp add: validateEmail_def emailRegex_def whitespace_def)
  have a: "\<not> own_code_throws ?body"
    by (simp add: own_code_throws_def email role valid) (simp add: sample_body_def)
  have low: "toLowerCase ''A@b.com'' = ''a@b.com''"
    by code_simp
  have first: "first_failure sample_env sample_clock ?body no_submissions = Some InvalidRole"
    by (simp add: first_failure_cases email role valid lower_cased_JStr low isRateLimited_def
          no_submissions_def Array_includes_def validRoles_def)
  from C3_validation_order [OF a, of sample_env healthy_upstream sample_clock no_submissions]
  have "fst (post_waitlist sample_env healthy_upstream sample_clock ?body no_submissions)
     = rejection InvalidRole"
    unfolding follows_validation_order_def first
    by (cases "post_waitlist sample_env healthy_upstream sample_clock ?body no_submissions")
       simp
  with a C3_validation_order [OF a] show ?thesis
    by simp
qed

text \<open>
  Claim C3 as stated, for every request body, fails on a body whose \<^verbatim>\<open>email\<close> is
  the array \<^verbatim>\<open>["a@b.com"]\<close>: the two first checks pass (the pattern is tested on
  the string conversion of the array), \<^verbatim>\<open>email.toLowerCase()\<close> throws, and the
  catch block answers with the network-error reply, which is the rejection of none of
  the five checks; the rate limiter is not consulted.
\<close>

theorem C3_array_email_counterexample:
  "\<not> follows_validation_order sample_env healthy_upstream sample_clock
       (sample_body (JArr [JStr ''a@b.com'']) (JStr ''Student / Learner'')) no_submissions"
proof -
  let ?body = "sample_body (JArr [JStr ''a@b.com'']) (JStr ''Student / Learner'')"
  have email: "get_prop ?body ''email'' = JArr [JStr ''a@b.com'']"
    and role: "get_prop ?body ''role'' = JStr ''Student / Learner''"
    by (simp_all add: sample_body_def)
  have valid: "validateEmail (JArr [JStr ''a@b.com'']) = Some True"
    by (simp add: validateEmail_def emailRegex_def whitespace_def)
  have throws: "own_code_throws ?body"
    by (simp add: own_code_throws_def email role valid)
  have post: "post_waitlist sample_env healthy_upstream sample_clock ?body no_submissions
      = (json 500 False ''Network error. Please check your connection and try again.'',
         no_submissions, [])"
    using throws by (rule own_code_throws_reply)
  have low: "lower_cased (JArr [JStr ''a@b.com'']) = ''a@b.com''"
    unfolding lower_cased_def by code_simp
  have none: "first_failure sample_env sample_clock ?body no_submissions = None"
    by (simp add: first_failure_cases email role valid low isRateLimited_def no_submissions_def
          Array_includes_def validRoles_def sample_env_def)
  show ?thesis
    by (simp add: follows_validation_order_def post none)
qed

text \<open>
  The restriction of the amended claim is the least one: on every body on which the
  handler's own code throws, the validation order is not followed.
\<close>

lemma network_error_no_rejection:
  "json 500 False ''Network error. Please check your connection and try again.'' \<noteq> rejection c"
  by (cases c) (simp_all add: json_def)

lemma own_code_throws_breaks_order:
  assumes "own_code_throws body"
  shows "\<not> follows_validation_order e axios_post clk body tracker"
proof (cases "first_failure e clk body tracker")
  case None
  then show ?thesis
    by (simp add: follows_validation_order_def own_code_throws_reply [OF assms])
next
  case (Some c)
  then show ?thesis
    using network_error_no_rejection [of c]
    by (simp add: follows_validation_order_def own_code_throws_reply [OF assms])
qed

text \<open>
  Two more bodies on which the handler's own code throws: an email that is an object
  with a property \<^verbatim>\<open>toString\<close> of its own cannot be converted for the pattern
  test, and the array \<^verbatim>\<open>["a@b", 1.5e21]\<close> is converted to
  \<^verbatim>\<open>a@b,1.5e+21\<close>, which passes the test.  Both get the network-error reply.
\<close>

lemma unconvertible_email_throws:
  "own_code_throws (sample_body (JObj [(''toString'', JStr ''x'')]) (JStr ''Student / Learner''))"
  by (simp add: own_code_throws_def sample_body_def validateEmail_def)

lemma array_with_number_throws:
  "own_code_throws (sample_body (JArr [JStr ''a@b'', JNum ''1.5e+21''])
     (JStr ''Student / Learner''))"
  by (simp add: own_code_throws_def sample_body_def validateEmail_def emailRegex_def
        whitespace_def)

lemma first_failure_NoneD:
  assumes "first_failure e clk body tracker = None"
  shows "truthy (get_prop body ''email'')" "truthy (get_prop body ''role'')"
    "validateEmail (get_prop body ''email'') = Some True"
    "\<not> fst (isRateLimited (Date_now clk) (lower_cased (get_prop body ''email'')) tracker)"
    "Array_includes validRoles (get_prop body ''role'')"
    "truthy (getenv (NOTION_TOKEN e))" "truthy (getenv (NOTION_DATABASE_ID e))"
  using assms by (simp_all add: first_failure_cases split: if_splits)

lemma post_waitlist_passed:
  assumes "body \<noteq> JUndefined" "body \<noteq> JNull"
    and s: "get_prop body ''email'' = JStr s"
    and passed: "first_failure e clk body tracker = None"
  shows "post_waitlist e axios_post clk body tracker =
     (finish (axios_post (notionRequest e
                (notionPayload e clk (JStr s) (get_prop body ''role'')))),
      snd (isRateLimited (Date_now clk) (toLowerCase s) tracker),
      [notionRequest e (notionPayload e clk (JStr s) (get_prop body ''role''))])"
proof -
  note p = first_failure_NoneD [OF passed]
  from p(1) s have ne: "s \<noteq> []" by simp
  from p(3) s have ok: "validateEmail (JStr s) = Some True" by simp
  from p(4) s have free: "\<not> fst (isRateLimited (Date_now clk) (toLowerCase s) tracker)"
    by (simp add: lower_cased_JStr)
  show ?thesis
    using post_waitlist_string [OF assms(1,2) s ne p(2) ok, of e axios_post clk tracker]
      free p(5,6,7)
    by simp
qed

lemma finish_status:
  "http_status (finish r) = equivalent_status (classify r)"
  "success (finish r) = (classify r = Succeeded)"
  by (cases r; simp add: finish_def catch_block_def json_def split: option.split)+

text \<open>
  Claim C5.  When every validation has passed, the one remote call is made and the
  reply follows from the way it ends: a structured error with status 400 gives status
  400, with 401 or 404 status 500, with 429 status 429, with any other status 500; a
  call that timed out gives 408; no response gives 500; and a call that succeeded gives
  the accepting reply, with \<^verbatim>\<open>success\<close> true (every other reply has it false).
\<close>

theorem C5_outcome_mapping:
  assumes "body \<noteq> JUndefined" "body \<noteq> JNull"
    and "get_prop body ''email'' = JStr s"
    and "first_failure e clk body tracker = None"
    and "request = notionRequest e (notionPayload e clk (JStr s) (get_prop body ''role''))"
  shows "snd (snd (post_waitlist e axios_post clk body tracker)) = [request] \<and>
         http_status (fst (post_waitlist e axios_post clk body tracker))
           = equivalent_status (classify (axios_post request)) \<and>
         success (fst (post_waitlist e axios_post clk body tracker))
           = (classify (axios_post request) = Succeeded)"
  using post_waitlist_passed [OF assms(1-4), of axios_post] assms(5)
  by (simp add: finish_status)

lemma passes_sample:
  "first_failure sample_env sample_clock
     (sample_body (JStr ''A@b.com'') (JStr ''Student / Learner'')) no_submissions = None"
proof -
  have low: "toLowerCase ''A@b.com'' = ''a@b.com''"
    by code_simp
  have valid: "validateEmail (JStr ''A@b.com'') = Some True"
    by (simp add: validateEmail_def emailRegex_def whitespace_def)
  show ?thesis
    by (simp add: first_failure_cases sample_body_def valid low lower_cased_JStr isRateLimited_def
          no_submissions_def Array_includes_def validRoles_def sample_env_def)
qed

theorem C5_outcome_mapping_witness:
  "sample_body (JStr ''A@b.com'') (JStr ''Student / Learner'') \<noteq> JUndefined \<and>
   sample_body (JStr ''A@b.com'') (JStr ''Student / Learner'') \<noteq> JNull \<and>
   first_failure sample_env sample_clock
     (sample_body (JStr ''A@b.com'') (JStr ''Student / Learner'')) no_submissions = None \<and>
   http_status (fst (post_waitlist sample_env (failing_upstream 401 (JStr ''token rejected''))
     sample_clock (sample_body (JStr ''A@b.com'') (JStr ''Student / Learner'')) no_submissions))
     = 500 \<and>
   \<not> success (fst (post_waitlist sample_env (failing_upstream 401 (JStr ''token rejected''))
     sample_clock (sample_body (JStr ''A@b.com'') (JStr ''Student / Learner'')) no_submissions))"
proof -
  let ?body = "sample_body (JStr ''A@b.com'') (JStr ''Student / Learner'')"
  have a: "?body \<noteq> JUndefined" and b: "?body \<noteq> JNull"
    and c: "get_prop ?body ''email'' = JStr ''A@b.com''"
    by (simp_all add: sample_body_def)
  from C5_outcome_mapping [OF a b c passes_sample refl,
      of "failing_upstream 401 (JStr ''token rejected'')"]
  show ?thesis
    using a b passes_sample by (simp add: failing_upstream_def)
qed

lemma Array_includes_validRoles:
  "Array_includes validRoles v \<longleftrightarrow>
     v = JStr ''Student / Learner'' \<or> v = JStr ''Tutor / Teacher'' \<or>
     v = JStr ''School / Institute'' \<or> v = JStr ''Developer / Researcher''"
  unfolding Array_includes_def validRoles_def by auto

lemma finish_not_invalid_role: "finish r \<noteq> json 400 False ''Invalid role selected''"
  by (cases r) (simp_all add: finish_def catch_block_def json_def split: option.split)

text \<open>
  Claim C6.  The role check accepts exactly the four strings
  \<^verbatim>\<open>Student / Learner\<close>, \<^verbatim>\<open>Tutor / Teacher\<close>, \<^verbatim>\<open>School / Institute\<close> and
  \<^verbatim>\<open>Developer / Researcher\<close>, compared as they are written; and a request that
  reaches the role check (the checks before it have passed) is answered with status
  400 and the message of an invalid role exactly when its role is none of the four.
\<close>

theorem C6_role_check:
  "(Array_includes validRoles v \<longleftrightarrow>
      v = JStr ''Student / Learner'' \<or> v = JStr ''Tutor / Teacher'' \<or>
      v = JStr ''School / Institute'' \<or> v = JStr ''Developer / Researcher'') \<and>
   (body \<noteq> JUndefined \<and> body \<noteq> JNull \<and> get_prop body ''email'' = JStr s \<and> s \<noteq> []
      \<and> truthy (get_prop body ''role'') \<and> validateEmail (JStr s) = Some True
      \<and> \<not> fst (isRateLimited (Date_now clk) (toLowerCase s) tracker)
    \<longrightarrow>
      (fst (post_waitlist e axios_post clk body tracker) = json 400 False ''Invalid role selected'')
        = (get_prop body ''role'' \<noteq> JStr ''Student / Learner'' \<and>
           get_prop body ''role'' \<noteq> JStr ''Tutor / Teacher'' \<and>
           get_prop body ''role'' \<noteq> JStr ''School / Institute'' \<and>
           get_prop body ''role'' \<noteq> JStr ''Developer / Researcher''))"
proof (intro conjI impI)
  show "Array_includes validRoles v \<longleftrightarrow>
      v = JStr ''Student / Learner'' \<or> v = JStr ''Tutor / Teacher'' \<or>
      v = JStr ''School / Institute'' \<or> v = JStr ''Developer / Researcher''"
    by (rule Array_includes_validRoles)
next
  assume h: "body \<noteq> JUndefined \<and> body \<noteq> JNull \<and> get_prop body ''email'' = JStr s \<and> s \<noteq> []
      \<and> truthy (get_prop body ''role'') \<and> validateEmail (JStr s) = Some True
      \<and> \<not> fst (isRateLimited (Date_now clk) (toLowerCase s) tracker)"
  then have post: "post_waitlist e axios_post clk body tracker =
     (if \<not> Array_includes validRoles (get_prop body ''role'') then
        (json 400 False ''Invalid role selected'',
         snd (isRateLimited (Date_now clk) (toLowerCase s) tracker), [])
      else if \<not> truthy (getenv (NOTION_TOKEN e)) \<or> \<not> truthy (getenv (NOTION_DATABASE_ID e)) then
        (json 500 False ''Server configuration error. Please contact support.'',
         snd (isRateLimited (Date_now clk) (toLowerCase s) tracker), [])
      else
        (finish (axios_post (notionRequest e
                   (notionPayload e clk (JStr s) (get_prop body ''role'')))),
         snd (isRateLimited (Date_now clk) (toLowerCase s) tracker),
         [notionRequest e (notionPayload e clk (JStr s) (get_prop body ''role''))]))"
    using post_waitlist_string [of body s e axios_post clk tracker] by simp
  have other: "json 500 False ''Server configuration error. Please contact support.''
      \<noteq> json 400 False ''Invalid role selected''"
    by (simp add: json_def)
  show "(fst (post_waitlist e axios_post clk body tracker) = json 400 False ''Invalid role selected'')
        = (get_prop body ''role'' \<noteq> JStr ''Student / Learner'' \<and>
           get_prop body ''role'' \<noteq> JStr ''Tutor / Teacher'' \<and>
           get_prop body ''role'' \<noteq> JStr ''School / Institute'' \<and>
           get_prop body ''role'' \<noteq> JStr ''Developer / Researcher'')"
    unfolding post
    using other finish_not_invalid_role Array_includes_validRoles [of "get_prop body ''role''"]
    by simp
qed


lemma sample_email_valid: "validateEmail (JStr ''A@b.com'') = Some True"
  by (simp add: validateEmail_def emailRegex_def whitespace_def)

lemma sample_email_lower: "toLowerCase ''A@b.com'' = ''a@b.com''"
  by code_simp

theorem C6_role_check_witness:
  "Array_includes validRoles (JStr ''Tutor / Teacher'') \<and>
   \<not> Array_includes validRoles (JStr ''tutor / teacher'') \<and>
   validateEmail (JStr ''A@b.com'') = Some True \<and>
   \<not> fst (isRateLimited (Date_now sample_clock) (toLowerCase ''A@b.com'') no_submissions) \<and>
   fst (post_waitlist sample_env healthy_upstream sample_clock
          (sample_body (JStr ''A@b.com'') (JStr ''tutor / teacher'')) no_submissions)
     = json 400 False ''Invalid role selected''"
proof -
  let ?body = "sample_body (JStr ''A@b.com'') (JStr ''tutor / teacher'')"
  have free: "\<not> fst (isRateLimited (Date_now sample_clock) (toLowerCase ''A@b.com'')
      no_submissions)"
    by (simp add: isRateLimited_def no_submissions_def)
  have pre: "?body \<noteq> JUndefined \<and> ?body \<noteq> JNull \<and> get_prop ?body ''email'' = JStr ''A@b.com''
      \<and> ''A@b.com'' \<noteq> [] \<and> truthy (get_prop ?body ''role'')
      \<and> validateEmail (JStr ''A@b.com'') = Some True
      \<and> \<not> fst (isRateLimited (Date_now sample_clock) (toLowerCase ''A@b.com'') no_submissions)"
    using free sample_email_valid by (simp add: sample_body_def)
  have role: "get_prop ?body ''role'' = JStr ''tutor / teacher''"
    by (simp add: sample_body_def)
  note inst = C6_role_check [of _ ?body "''A@b.com''" sample_clock no_submissions
      sample_env healthy_upstream]
  from inst [of "JStr ''Tutor / Teacher''"] have yes: "Array_includes validRoles (JStr ''Tutor / Teacher'')"
    by simp
  from inst [of "JStr ''tutor / teacher''"] have no: "\<not> Array_includes validRoles (JStr ''tutor / teacher'')"
    by simp
  from inst [of JNull] pre role
  have "fst (post_waitlist sample_env healthy_upstream sample_clock ?body no_submissions)
     = json 400 False ''Invalid role selected''"
    by simp
  with yes no free sample_email_valid show ?thesis
    by simp
qed

lemma index0_split_str:
  "sep \<notin> set d \<Longrightarrow> index0 (split_str sep (d @ sep # rest)) = JStr d"
proof (induction d)
  case Nil
  then show ?case by simp
next
  case (Cons c d)
  then have "index0 (split_str sep (d @ sep # rest)) = JStr d" and "c \<noteq> sep"
    by auto
  then show ?case
    by (cases "split_str sep (d @ sep # rest)") simp_all
qed

lemma list_all2_not_mem:
  "list_all2 P ps cs \<Longrightarrow> \<forall>p c. P p c \<longrightarrow> c \<noteq> x \<Longrightarrow> x \<notin> set cs"
  by (induction rule: list_all2_induct) auto

lemma iso_date_no_T: "iso_date d \<Longrightarrow> CHR ''T'' \<notin> set d"
  unfolding iso_date_def
  by (erule list_all2_not_mem) auto

lemma get_path_simps:
  "get_path v [] = v"
  "get_path v (n # ns) = get_path (get_prop v n) ns"
  by (simp_all add: get_path_def)

lemma notionPayload_fields:
  "get_path (get_index (get_path (notionPayload e clk email role)
      [''properties'', ''Name'', ''title'']) 0) [''text'', ''content''] = email"
  "get_path (notionPayload e clk email role) [''properties'', ''Email'', ''email''] = email"
  "get_path (notionPayload e clk email role) [''properties'', ''Role'', ''select'', ''name'']
     = role"
  "get_path (notionPayload e clk email role) [''properties'', ''SubmitAt'', ''date'', ''start'']
     = index0 (split_str CHR ''T'' (toISOString clk))"
  "get_path (notionPayload e clk email role) [''parent'', ''database_id'']
     = getenv (NOTION_DATABASE_ID e)"
  by (simp_all add: notionPayload_def get_path_simps)

text \<open>
  Claim C7.  When every validation has passed, one request is sent to the remote
  service, with a timeout of 10 seconds (in milliseconds); in its payload the title of
  \<^verbatim>\<open>Name\<close> and the field \<^verbatim>\<open>Email\<close> hold the submitted email, the selection
  of \<^verbatim>\<open>Role\<close> holds the submitted role, and the date of \<^verbatim>\<open>SubmitAt\<close> is the
  calendar date \<^verbatim>\<open>YYYY-MM-DD\<close> that the ISO string of the clock starts with, without
  the time that follows the \<^verbatim>\<open>T\<close>.
\<close>

theorem C7_payload:
  assumes "body \<noteq> JUndefined" "body \<noteq> JNull"
    and "get_prop body ''email'' = JStr s"
    and "first_failure e clk body tracker = None"
    and "toISOString clk = date @ ''T'' @ time" and "iso_date date"
  shows "\<exists>request. snd (snd (post_waitlist e axios_post clk body tracker)) = [request] \<and>
     timeout request = 10 * 1000 \<and>
     get_path (get_index (get_path (payload request)
        [''properties'', ''Name'', ''title'']) 0) [''text'', ''content''] = JStr s \<and>
     get_path (payload request) [''properties'', ''Email'', ''email''] = JStr s \<and>
     get_path (payload request) [''properties'', ''Role'', ''select'', ''name'']
        = get_prop body ''role'' \<and>
     get_path (payload request) [''properties'', ''SubmitAt'', ''date'', ''start'']
        = JStr date"
proof -
  let ?request = "notionRequest e (notionPayload e clk (JStr s) (get_prop body ''role''))"
  have posted: "snd (snd (post_waitlist e axios_post clk body tracker)) = [?request]"
    using post_waitlist_passed [OF assms(1-4), of axios_post] by simp
  have "CHR ''T'' \<notin> set date"
    using assms(6) by (rule iso_date_no_T)
  then have start: "index0 (split_str CHR ''T'' (toISOString clk)) = JStr date"
    using assms(5) index0_split_str [of "CHR ''T''" date time] by simp
  have "timeout ?request = 10 * 1000" and "payload ?request
      = notionPayload e clk (JStr s) (get_prop body ''role'')"
    by (simp_all add: notionRequest_def)
  with posted start show ?thesis
    by (simp add: notionPayload_fields)
qed

theorem C7_payload_witness:
  "first_failure sample_env sample_clock
     (sample_body (JStr ''A@b.com'') (JStr ''Student / Learner'')) no_submissions = None \<and>
   toISOString sample_clock = ''2025-05-03'' @ ''T'' @ ''10:11:12.123Z'' \<and>
   iso_date ''2025-05-03'' \<and>
   (\<exists>request. snd (snd (post_waitlist sample_env healthy_upstream sample_clock
        (sample_body (JStr ''A@b.com'') (JStr ''Student / Learner'')) no_submissions))
        = [request] \<and>
      timeout request = 10 * 1000 \<and>
      get_path (get_index (get_path (payload request)
        [''properties'', ''Name'', ''title'']) 0) [''text'', ''content''] = JStr ''A@b.com'' \<and>
      get_path (payload request) [''properties'', ''Email'', ''email''] = JStr ''A@b.com'' \<and>
      get_path (payload request) [''properties'', ''Role'', ''select'', ''name'']
        = JStr ''Student / Learner'' \<and>
      get_path (payload request) [''properties'', ''SubmitAt'', ''date'', ''start'']
        = JStr ''2025-05-03'')"
proof -
  let ?body = "sample_body (JStr ''A@b.com'') (JStr ''Student / Learner'')"
  have a: "?body \<noteq> JUndefined" and b: "?body \<noteq> JNull"
    and c: "get_prop ?body ''email'' = JStr ''A@b.com''"
    and r: "get_prop ?body ''role'' = JStr ''Student / Learner''"
    by (simp_all add: sample_body_def)
  have iso: "toISOString sample_clock = ''2025-05-03'' @ ''T'' @ ''10:11:12.123Z''"
    by (simp add: sample_clock_def)
  have d: "iso_date ''2025-05-03''"
    by (simp add: iso_date_def)
  from C7_payload [OF a b c passes_sample iso d, of healthy_upstream] r
  have "\<exists>request. snd (snd (post_waitlist sample_env healthy_upstream sample_clock
        ?body no_submissions)) = [request] \<and>
      timeout request = 10 * 1000 \<and>
      get_path (get_index (get_path (payload request)
        [''properties'', ''Name'', ''title'']) 0) [''text'', ''content''] = JStr ''A@b.com'' \<and>
      get_path (payload request) [''properties'', ''Email'', ''email''] = JStr ''A@b.com'' \<and>
      get_path (payload request) [''properties'', ''Role'', ''select'', ''name'']
        = JStr ''Student / Learner'' \<and>
      get_path (payload request) [''properties'', ''SubmitAt'', ''date'', ''start'']
        = JStr ''2025-05-03''"
    by simp
  with passes_sample iso d show ?thesis
    by blast
qed

lemma finish_by_outcome:
  "finish r =
     (case classify r of
        Succeeded \<Rightarrow> json 200 True ''Successfully added to waitlist! We'll be in touch soon.''
      | StructuredError n \<Rightarrow>
          (if n = 400 then json 400 False ''Invalid request format. Please try again.''
           else if n = 401 then
             json 500 False ''Server authentication error. Please contact support.''
           else if n = 404 then
             json 500 False ''Database configuration error. Please contact support.''
           else if n = 429 then
             json 429 False ''Server is busy. Please try again in a moment.''
           else json 500 False ''Something went wrong. Please try again.'')
      | TimedOut \<Rightarrow> json 408 False ''Request timeout. Please try again.''
      | NoResponse \<Rightarrow>
          json 500 False ''Network error. Please check your connection and try again.'')"
proof (cases r)
  case (Resolved x)
  then show ?thesis by (simp add: finish_def)
next
  case (Rejected error)
  show ?thesis
  proof (cases "response error")
    case None
    with Rejected show ?thesis by (simp add: finish_def catch_block_def)
  next
    case (Some x)
    with Rejected show ?thesis by (simp add: finish_def catch_block_def)
  qed
qed

lemma finish_classify: "classify r1 = classify r2 \<Longrightarrow> finish r1 = finish r2"
  by (simp only: finish_by_outcome)

lemma reply_json: "message (json n ok msg) = msg" "success (json n ok msg) = ok"
  "http_status (json n ok msg) = n"
  by (simp_all add: json_def)

lemma error_messages_mem:
  "''Email and role are required'' \<in> set error_messages"
  "''Please enter a valid email address'' \<in> set error_messages"
  "''Too many submissions. Please try again later.'' \<in> set error_messages"
  "''Invalid role selected'' \<in> set error_messages"
  "''Server configuration error. Please contact support.'' \<in> set error_messages"
  "''Invalid request format. Please try again.'' \<in> set error_messages"
  "''Server authentication error. Please contact support.'' \<in> set error_messages"
  "''Database configuration error. Please contact support.'' \<in> set error_messages"
  "''Server is busy. Please try again in a moment.'' \<in> set error_messages"
  "''Something went wrong. Please try again.'' \<in> set error_messages"
  "''Request timeout. Please try again.'' \<in> set error_messages"
  "''Network error. Please check your connection and try again.'' \<in> set error_messages"
  unfolding error_messages_def by (simp_all only: list.set insert_iff simp_thms)

lemma finish_message:
  "success (finish r) \<or> message (finish r) \<in> set error_messages"
proof (cases "classify r")
  case Succeeded
  then show ?thesis
    by (simp only: finish_by_outcome remote_outcome.case reply_json simp_thms)
next
  case (StructuredError n)
  then show ?thesis
    by (simp only: finish_by_outcome remote_outcome.case reply_json error_messages_mem
          simp_thms split: if_split)
next
  case TimedOut
  then show ?thesis
    by (simp only: finish_by_outcome remote_outcome.case reply_json error_messages_mem
          simp_thms)
next
  case NoResponse
  then show ?thesis
    by (simp only: finish_by_outcome remote_outcome.case reply_json error_messages_mem
          simp_thms)
qed


lemma post_waitlist_message:
  "success (fst (post_waitlist e axios_post clk body tracker)) \<or>
   message (fst (post_waitlist e axios_post clk body tracker)) \<in> set error_messages"
proof (cases body rule: body_cases)
  case absent
  show ?thesis
    by (simp only: post_waitlist_no_body [OF absent] fst_conv reply_json error_messages_mem
          simp_thms)
next
  case missing
  show ?thesis
    by (simp only: post_waitlist_missing [OF missing] fst_conv reply_json error_messages_mem
          simp_thms)
next
  case unconvertible
  show ?thesis
    by (simp only: post_waitlist_unconvertible [OF unconvertible] fst_conv reply_json
          error_messages_mem simp_thms)
next
  case invalid
  show ?thesis
    by (simp only: post_waitlist_invalid_email [OF invalid] fst_conv reply_json
          error_messages_mem simp_thms)
next
  case not_string
  show ?thesis
    by (simp only: post_waitlist_not_string [OF not_string] fst_conv reply_json
          error_messages_mem simp_thms)
next
  case (checked s)
  show ?thesis
    unfolding post_waitlist_string [OF checked]
    using finish_message
    by (simp only: fst_conv reply_json error_messages_mem simp_thms split: if_split)
qed


lemma post_waitlist_same_kind:
  assumes "classify (post1 (notionRequest e
              (notionPayload e clk (get_prop body ''email'') (get_prop body ''role''))))
         = classify (post2 (notionRequest e
              (notionPayload e clk (get_prop body ''email'') (get_prop body ''role''))))"
  shows "post_waitlist e post1 clk body tracker = post_waitlist e post2 clk body tracker"
proof (cases body rule: body_cases)
  case absent
  show ?thesis
    by (simp only: post_waitlist_no_body [OF absent])
next
  case missing
  show ?thesis
    by (simp only: post_waitlist_missing [OF missing])
next
  case unconvertible
  show ?thesis
    by (simp only: post_waitlist_unconvertible [OF unconvertible])
next
  case invalid
  show ?thesis
    by (simp only: post_waitlist_invalid_email [OF invalid])
next
  case not_string
  show ?thesis
    by (simp only: post_waitlist_not_string [OF not_string])
next
  case (checked s)
  let ?request = "notionRequest e (notionPayload e clk (JStr s) (get_prop body ''role''))"
  have "classify (post1 ?request) = classify (post2 ?request)"
    using assms unfolding checked(3) .
  then have same: "finish (post1 ?request) = finish (post2 ?request)"
    by (rule finish_classify)
  show ?thesis
    unfolding post_waitlist_string [OF checked] same ..
qed

text \<open>
  Claim C8.  Whatever the request and the answer of the remote service, the message of
  a reply that reports a failure is one of twelve constant strings; and two runs on
  the same request in which the remote call ends in the same way (both a success, both
  a structured error with the same status, both a timeout, or both no response) give
  the same reply, tracker and remote request, whatever the bodies and codes of the two
  errors.
\<close>

theorem C8_sanitized_messages:
  "(\<not> success (fst (post_waitlist e axios_post clk body tracker)) \<longrightarrow>
      message (fst (post_waitlist e axios_post clk body tracker)) \<in> set error_messages) \<and>
   (classify (post1 (notionRequest e
        (notionPayload e clk (get_prop body ''email'') (get_prop body ''role''))))
      = classify (post2 (notionRequest e
        (notionPayload e clk (get_prop body ''email'') (get_prop body ''role'')))) \<longrightarrow>
      post_waitlist e post1 clk body tracker = post_waitlist e post2 clk body tracker)"
proof (intro conjI impI)
  assume "\<not> success (fst (post_waitlist e axios_post clk body tracker))"
  with post_waitlist_message [of e axios_post clk body tracker]
  show "message (fst (post_waitlist e axios_post clk body tracker)) \<in> set error_messages"
    by simp
next
  assume "classify (post1 (notionRequest e
        (notionPayload e clk (get_prop body ''email'') (get_prop body ''role''))))
      = classify (post2 (notionRequest e
        (notionPayload e clk (get_prop body ''email'') (get_prop body ''role''))))"
  then show "post_waitlist e post1 clk body tracker = post_waitlist e post2 clk body tracker"
    by (rule post_waitlist_same_kind)
qed

theorem C8_sanitized_messages_witness:
  "classify (failing_upstream 400 (JStr ''body failed validation: Role'')
       (notionRequest sample_env (notionPayload sample_env sample_clock
          (JStr ''A@b.com'') (JStr ''Student / Learner''))))
     = classify (failing_upstream 400 (JObj [(''object'', JStr ''error'')])
       (notionRequest sample_env (notionPayload sample_env sample_clock
          (JStr ''A@b.com'') (JStr ''Student / Learner'')))) \<and>
   post_waitlist sample_env (failing_upstream 400 (JStr ''body failed validation: Role''))
       sample_clock (sample_body (JStr ''A@b.com'') (JStr ''Student / Learner'')) no_submissions
     = post_waitlist sample_env (failing_upstream 400 (JObj [(''object'', JStr ''error'')]))
       sample_clock (sample_body (JStr ''A@b.com'') (JStr ''Student / Learner'')) no_submissions \<and>
   \<not> success (fst (post_waitlist sample_env
       (failing_upstream 400 (JStr ''body failed validation: Role''))
       sample_clock (sample_body (JStr ''A@b.com'') (JStr ''Student / Learner'')) no_submissions)) \<and>
   message (fst (post_waitlist sample_env
       (failing_upstream 400 (JStr ''body failed validation: Role''))
       sample_clock (sample_body (JStr ''A@b.com'') (JStr ''Student / Learner'')) no_submissions))
     \<in> set error_messages"
proof -
  let ?body = "sample_body (JStr ''A@b.com'') (JStr ''Student / Learner'')"
  let ?up1 = "failing_upstream 400 (JStr ''body failed validation: Role'')"
  let ?up2 = "failing_upstream 400 (JObj [(''object'', JStr ''error'')])"
  let ?request = "notionRequest sample_env (notionPayload sample_env sample_clock
      (JStr ''A@b.com'') (JStr ''Student / Learner''))"
  have a: "?body \<noteq> JUndefined" and b: "?body \<noteq> JNull"
    and c: "get_prop ?body ''email'' = JStr ''A@b.com''"
    and r: "get_prop ?body ''role'' = JStr ''Student / Learner''"
    by (simp_all add: sample_body_def)
  have kind: "classify (?up1 ?request) = classify (?up2 ?request)"
    by (simp add: failing_upstream_def)
  have failed: "\<not> success (fst (post_waitlist sample_env ?up1 sample_clock ?body no_submissions))"
    using post_waitlist_passed [OF a b c passes_sample, of ?up1]
    by (simp add: finish_status failing_upstream_def)
  note inst = C8_sanitized_messages [of sample_env ?up1 sample_clock ?body no_submissions
      ?up1 ?up2, unfolded c r]
  from inst [THEN conjunct2] kind
  have same: "post_waitlist sample_env ?up1 sample_clock ?body no_submissions
      = post_waitlist sample_env ?up2 sample_clock ?body no_submissions"
    by (rule mp)
  from inst [THEN conjunct1] failed
  have fixed: "message (fst (post_waitlist sample_env ?up1 sample_clock ?body
      no_submissions)) \<in> set error_messages"
    by (rule mp)
  from kind same failed fixed show ?thesis
    by - (intro conjI, assumption+)
qed

lemma at_limit_isRateLimited: "at_limit now key tracker = fst (isRateLimited now key tracker)"
  by (simp add: at_limit_def isRateLimited_def split: option.split)

lemma isRateLimited_slot:
  assumes "\<not> fst (isRateLimited now key tracker)"
  shows "snd (isRateLimited now key tracker) key =
     Some (case tracker key of
             None \<Rightarrow> \<lparr>count = 1, firstSubmission = now\<rparr>
           | Some d \<Rightarrow>
               if now - firstSubmission d > RATE_LIMIT_WINDOW
               then \<lparr>count = 1, firstSubmission = now\<rparr>
               else d\<lparr>count := count d + 1\<rparr>)"
proof (cases "tracker key")
  case None
  then show ?thesis
    by (simp add: isRateLimited_absent)
next
  case (Some d)
  show ?thesis
  proof (cases "now - firstSubmission d > RATE_LIMIT_WINDOW")
    case True
    with Some show ?thesis
      by (simp add: isRateLimited_expired)
  next
    case False
    show ?thesis
    proof (cases "count d \<ge> MAX_SUBMISSIONS_PER_EMAIL")
      case True
      with Some False have "isRateLimited now key tracker = (True, tracker)"
        by (rule isRateLimited_blocked)
      with assms show ?thesis
        by simp
    next
      case open_slot: False
      with Some False
      have "isRateLimited now key tracker = (False, tracker(key \<mapsto> d\<lparr>count := count d + 1\<rparr>))"
        by (rule isRateLimited_counted)
      with Some False show ?thesis
        by simp
    qed
  qed
qed

lemma isRateLimited_changes:
  assumes "\<not> fst (isRateLimited now key tracker)"
  shows "snd (isRateLimited now key tracker) \<noteq> tracker"
proof
  assume same: "snd (isRateLimited now key tracker) = tracker"
  show False
  proof (cases "tracker key")
    case None
    with isRateLimited_slot [OF assms] same show False
      by simp
  next
    case (Some d)
    with isRateLimited_slot [OF assms] same
    have "d = (if now - firstSubmission d > RATE_LIMIT_WINDOW
               then \<lparr>count = 1, firstSubmission = now\<rparr>
               else d\<lparr>count := count d + 1\<rparr>)"
      by simp
    then show False
    proof (cases "now - firstSubmission d > RATE_LIMIT_WINDOW")
      case True
      assume "d = (if now - firstSubmission d > RATE_LIMIT_WINDOW
               then \<lparr>count = 1, firstSubmission = now\<rparr>
               else d\<lparr>count := count d + 1\<rparr>)"
      with True have "firstSubmission d = now"
        by (metis emailData.select_convs(2))
      with True show False
        by (simp add: RATE_LIMIT_WINDOW_def)
    next
      case False
      assume "d = (if now - firstSubmission d > RATE_LIMIT_WINDOW
               then \<lparr>count = 1, firstSubmission = now\<rparr>
               else d\<lparr>count := count d + 1\<rparr>)"
      with False have "count d = count (d\<lparr>count := count d + 1\<rparr>)"
        by simp
      then show False
        by simp
    qed
  qed
qed

lemma post_waitlist_tracker:
  assumes "body \<noteq> JUndefined" "body \<noteq> JNull"
    and "get_prop body ''email'' = JStr s" "s \<noteq> []" "truthy (get_prop body ''role'')"
    and "validateEmail (JStr s) = Some True"
  shows "fst (snd (post_waitlist e axios_post clk body tracker))
     = snd (isRateLimited (Date_now clk) (toLowerCase s) tracker)"
  unfolding post_waitlist_string [OF assms]
  by (simp split: if_split)

text \<open>
  Claim C9, as amended.  The rate-limit check precedes the role check: every request
  whose email is a non-empty string that passes the email check, whose role is
  non-empty and whose lower-cased email is not already at the limit consumes a
  rate-limit slot (the counter of the lower-cased email is incremented, or its entry is
  created or reset), so that the tracker changes; this holds whatever the role, the
  environment and the remote service are, so also when the request is then rejected
  for an invalid role, for missing credentials, or because the remote call fails.
\<close>

theorem C9_slot_consumed:
  assumes "get_prop body ''email'' = JStr s" and "s \<noteq> []"
    and "truthy (get_prop body ''role'')"
    and "validateEmail (JStr s) = Some True"
    and "\<not> at_limit (Date_now clk) (toLowerCase s) tracker"
  shows "consumes_slot e axios_post clk body tracker \<and>
         fst (snd (post_waitlist e axios_post clk body tracker)) \<noteq> tracker"
proof -
  from assms(1) have present: "body \<noteq> JUndefined" "body \<noteq> JNull"
    using get_prop_present by blast+
  have after: "fst (snd (post_waitlist e axios_post clk body tracker))
     = snd (isRateLimited (Date_now clk) (toLowerCase s) tracker)"
    using present assms(1-4) by (rule post_waitlist_tracker)
  from assms(5) have free: "\<not> fst (isRateLimited (Date_now clk) (toLowerCase s) tracker)"
    by (simp add: at_limit_isRateLimited)
  have "consumes_slot e axios_post clk body tracker"
    unfolding consumes_slot_def after assms(1) lower_cased_JStr
    using free by (rule isRateLimited_slot)
  moreover have "fst (snd (post_waitlist e axios_post clk body tracker)) \<noteq> tracker"
    unfolding after using free by (rule isRateLimited_changes)
  ultimately show ?thesis ..
qed


theorem C9_slot_consumed_witness:
  "get_prop (sample_body (JStr ''A@b.com'') (JStr ''nobody'')) ''email'' = JStr ''A@b.com'' \<and>
   truthy (get_prop (sample_body (JStr ''A@b.com'') (JStr ''nobody'')) ''role'') \<and>
   validateEmail (JStr ''A@b.com'') = Some True \<and>
   \<not> at_limit (Date_now sample_clock) (toLowerCase ''A@b.com'') no_submissions \<and>
   consumes_slot unset_env (failing_upstream 500 JNull) sample_clock
     (sample_body (JStr ''A@b.com'') (JStr ''nobody'')) no_submissions \<and>
   fst (snd (post_waitlist unset_env (failing_upstream 500 JNull) sample_clock
     (sample_body (JStr ''A@b.com'') (JStr ''nobody'')) no_submissions)) \<noteq> no_submissions"
proof -
  let ?body = "sample_body (JStr ''A@b.com'') (JStr ''nobody'')"
  have email: "get_prop ?body ''email'' = JStr ''A@b.com''"
    and role: "truthy (get_prop ?body ''role'')"
    by (simp_all add: sample_body_def)
  have ne: "''A@b.com'' \<noteq> []"
    by simp
  have free: "\<not> at_limit (Date_now sample_clock) (toLowerCase ''A@b.com'') no_submissions"
    by (simp add: at_limit_def no_submissions_def)
  from C9_slot_consumed [OF email ne role sample_email_valid free,
      of unset_env "failing_upstream 500 JNull"]
    email role sample_email_valid free
  show ?thesis
    by - (intro conjI, (assumption | erule conjunct1 | erule conjunct2)+)
qed

text \<open>
  Claim C9 as stated fails on a request whose \<^verbatim>\<open>email\<close> is the array
  \<^verbatim>\<open>["x@y.org"]\<close>: email and role are non-empty, the email passes the pattern
  test (on its string conversion) and nothing is at the limit, but
  \<^verbatim>\<open>email.toLowerCase()\<close> throws before the rate limiter is called, and the tracker
  is left as it was.
\<close>

theorem C9_array_email_counterexample:
  "truthy (get_prop (sample_body (JArr [JStr ''x@y.org'']) (JStr ''Tutor / Teacher'')) ''email'') \<and>
   truthy (get_prop (sample_body (JArr [JStr ''x@y.org'']) (JStr ''Tutor / Teacher'')) ''role'') \<and>
   validateEmail (get_prop (sample_body (JArr [JStr ''x@y.org'']) (JStr ''Tutor / Teacher''))
     ''email'') = Some True \<and>
   \<not> at_limit (Date_now sample_clock) (lower_cased (get_prop
       (sample_body (JArr [JStr ''x@y.org'']) (JStr ''Tutor / Teacher'')) ''email''))
     no_submissions \<and>
   \<not> consumes_slot sample_env healthy_upstream sample_clock
       (sample_body (JArr [JStr ''x@y.org'']) (JStr ''Tutor / Teacher'')) no_submissions \<and>
   fst (snd (post_waitlist sample_env healthy_upstream sample_clock
       (sample_body (JArr [JStr ''x@y.org'']) (JStr ''Tutor / Teacher'')) no_submissions))
     = no_submissions"
proof -
  let ?body = "sample_body (JArr [JStr ''x@y.org'']) (JStr ''Tutor / Teacher'')"
  have email: "get_prop ?body ''email'' = JArr [JStr ''x@y.org'']"
    and role: "get_prop ?body ''role'' = JStr ''Tutor / Teacher''"
    by (simp_all add: sample_body_def)
  have valid: "validateEmail (JArr [JStr ''x@y.org'']) = Some True"
    by (simp add: validateEmail_def emailRegex_def whitespace_def)
  have throws: "own_code_throws ?body"
    by (simp add: own_code_throws_def email role valid)
  have post: "post_waitlist sample_env healthy_upstream sample_clock ?body no_submissions
      = (json 500 False ''Network error. Please check your connection and try again.'',
         no_submissions, [])"
    using throws by (rule own_code_throws_reply)
  have free: "\<not> at_limit (Date_now sample_clock) key no_submissions" for key
    by (simp add: at_limit_def no_submissions_def)
  have unchanged: "\<not> consumes_slot sample_env healthy_upstream sample_clock ?body
      no_submissions"
    by (simp add: consumes_slot_def post) (simp add: no_submissions_def)
  show ?thesis
    using free unchanged by (simp add: email role valid post)
qed

text \<open>
  Claim C10.  When the request body is absent (\<^verbatim>\<open>undefined\<close>), destructuring it
  throws inside the \<^verbatim>\<open>try\<close> block before anything else happens; the thrown
  \<^verbatim>\<open>TypeError\<close> has neither an upstream response nor the timeout code, so the
  reply is the network error with status 500, and not the rejection for missing fields
  with status 400.
\<close>

theorem C10_absent_body:
  "try_block e axios_post clk JUndefined tracker = (Inl TypeError, tracker, []) \<and>
   response TypeError = None \<and> code TypeError \<noteq> Some ''ECONNABORTED'' \<and>
   post_waitlist e axios_post clk JUndefined tracker
     = (json 500 False ''Network error. Please check your connection and try again.'',
        tracker, []) \<and>
   fst (post_waitlist e axios_post clk JUndefined tracker) \<noteq> rejection MissingFields \<and>
   http_status (fst (post_waitlist e axios_post clk JUndefined tracker)) = 500"
proof -
  have post: "post_waitlist e axios_post clk JUndefined tracker
     = (json 500 False ''Network error. Please check your connection and try again.'',
        tracker, [])"
    by (rule post_waitlist_no_body) simp
  have "json 500 False ''Network error. Please check your connection and try again.''
      \<noteq> rejection MissingFields"
    by (simp add: json_def)
  then show ?thesis
    unfolding post by (simp add: try_block_def TypeError_def reply_json)
qed

theorem C10_absent_body_witness:
  "post_waitlist sample_env healthy_upstream sample_clock JUndefined no_submissions
     = (json 500 False ''Network error. Please check your connection and try again.'',
        no_submissions, []) \<and>
   fst (post_waitlist sample_env healthy_upstream sample_clock JUndefined no_submissions)
     \<noteq> json 400 False ''Email and role are required''"
  using C10_absent_body [of sample_env healthy_upstream sample_clock no_submissions]
  by (simp add: json_def)


end
